theory Spec2Isabelle
  imports Main "HOL-Library.Word"
begin

section \<open>Time and durations\<close>

text \<open>
  A Go \<open>time.Time\<close> is modelled by the instant it denotes: the number of nanoseconds
  since January 1, year 1, 00:00:00 UTC, the instant of the zero value of the type.
  A \<open>time.Duration\<close> is an int64 count of nanoseconds. The clock reading of
  \<open>time.Since\<close> is the parameter \<open>now\<close> of every function that reads the clock.
\<close>

type_synonym Time = int
type_synonym Duration = int

definition IsZero :: "Time \<Rightarrow> bool" where
  "IsZero t = (t = 0)"

definition minDuration :: Duration where
  "minDuration = - (2 ^ 63)"

definition maxDuration :: Duration where
  "maxDuration = 2 ^ 63 - 1"

text \<open>\<open>Time.Sub\<close> saturates at the least and the greatest duration.\<close>

definition Time_Sub :: "Time \<Rightarrow> Time \<Rightarrow> Duration" where
  "Time_Sub t u =
     (if t - u < minDuration then minDuration
      else if maxDuration < t - u then maxDuration
      else t - u)"

definition Since :: "Time \<Rightarrow> Time \<Rightarrow> Duration" where
  "Since now t = Time_Sub now t"

definition Hour :: Duration where
  "Hour = 3600000000000"

text \<open>int64 arithmetic wraps around.\<close>

definition wrap64 :: "int \<Rightarrow> int" where
  "wrap64 x = (x + 2 ^ 63) mod 2 ^ 64 - 2 ^ 63"

text \<open>\<open>time.Duration(hours) * time.Hour\<close>\<close>

definition hours_Duration :: "int \<Rightarrow> Duration" where
  "hours_Duration hours = wrap64 (wrap64 hours * Hour)"

section \<open>Models\<close>

type_synonym MediaFileSource = string

definition MediaSourceLibrary :: MediaFileSource where
  "MediaSourceLibrary = ''library''"

definition MediaSourceTorrent :: MediaFileSource where
  "MediaSourceTorrent = ''torrent''"

record MediaFile =
  Path :: string
  Size :: int
  ModTime :: Time
  HardlinkCount :: int
  IsHardlinked :: bool
  Source :: MediaFileSource

definition MediaFile_WithinGraceWindow :: "Time \<Rightarrow> MediaFile \<Rightarrow> int \<Rightarrow> bool" where
  "MediaFile_WithinGraceWindow now m hours =
     (if hours \<le> 0 then False
      else let elapsed = Since now (ModTime m) in
        if elapsed < 0 then True
        else elapsed < hours_Duration hours)"

type_synonym TorrentState = string

definition StateDownloading :: TorrentState where
  "StateDownloading = ''downloading''"

definition StateChecking :: TorrentState where
  "StateChecking = ''checking''"

definition StateCompleted :: TorrentState where
  "StateCompleted = ''completed''"

definition StatePaused :: TorrentState where
  "StatePaused = ''paused''"

definition StateStalled :: TorrentState where
  "StateStalled = ''stalled''"

record Torrent =
  Hash :: string
  Name :: string
  SavePath :: string
  State :: TorrentState
  CompletedOn :: Time
  Files :: "string list"

definition IsActive :: "Torrent \<Rightarrow> bool" where
  "IsActive t = (State t = StateDownloading \<or> State t = StateChecking)"

definition Torrent_WithinGraceWindow :: "Time \<Rightarrow> Torrent \<Rightarrow> int \<Rightarrow> bool" where
  "Torrent_WithinGraceWindow now t hours =
     (if hours \<le> 0 then False
      else if IsZero (CompletedOn t) then True
      else let elapsed = Since now (CompletedOn t) in
        if elapsed < 0 then True
        else elapsed < hours_Duration hours)"

type_synonym MediaClassification = string

definition MediaHealthy :: MediaClassification where
  "MediaHealthy = ''healthy''"

definition MediaAtRisk :: MediaClassification where
  "MediaAtRisk = ''at_risk''"

definition MediaOrphan :: MediaClassification where
  "MediaOrphan = ''orphan''"

definition MediaOrphanedDownload :: MediaClassification where
  "MediaOrphanedDownload = ''orphaned_download''"

record ArrFile =
  Path :: string
  SeriesID :: int
  EpisodeID :: int
  MovieID :: int
  Monitored :: bool
  ImportDate :: Time

text \<open>A pointer \<open>*ArrFile\<close> that may be nil is an \<open>ArrFile option\<close>.\<close>

definition IsKnown :: "ArrFile option \<Rightarrow> bool" where
  "IsKnown af =
     (case af of None \<Rightarrow> False
      | Some a \<Rightarrow> ArrFile.Path a \<noteq> [] \<and> (SeriesID a > 0 \<or> MovieID a > 0))"

record ClassifiedMedia =
  File :: MediaFile
  KnownToArr :: bool
  ArrSource :: string
  Classification :: MediaClassification
  Reason :: string

section \<open>Classification rules\<close>

definition ClassifyMedia ::
  "Time \<Rightarrow> MediaFile \<Rightarrow> ArrFile option \<Rightarrow> int \<Rightarrow> MediaClassification \<times> bool" where
  "ClassifyMedia now media arrFile graceHours =
     (let graceHours = (if graceHours \<le> 0 then 0 else graceHours) in
      if MediaFile_WithinGraceWindow now media graceHours then ([], False)
      else if arrFile = None then (MediaOrphan, True)
      else if IsHardlinked media then (MediaHealthy, True)
      else (MediaAtRisk, True))"

section \<open>Strings and paths\<close>

text \<open>
  Go strings are byte strings. The functions below are the ones the program calls from
  the packages \<open>strings\<close> and \<open>path/filepath\<close>, with \<open>/\<close> as the path separator.
\<close>

definition HasPrefix :: "string \<Rightarrow> string \<Rightarrow> bool" where
  "HasPrefix s pre = (length pre \<le> length s \<and> take (length pre) s = pre)"

definition TrimPrefix :: "string \<Rightarrow> string \<Rightarrow> string" where
  "TrimPrefix s pre = (if HasPrefix s pre then drop (length pre) s else s)"

text \<open>
  \<open>strings.ToLower\<close>, on the ASCII letters. Bytes outside \<open>A\<close> to \<open>Z\<close> are left as
  they are, so the case mapping of non-ASCII code points is not modelled.
\<close>

definition to_lower_char :: "char \<Rightarrow> char" where
  "to_lower_char c =
     (case map_of (zip ''ABCDEFGHIJKLMNOPQRSTUVWXYZ'' ''abcdefghijklmnopqrstuvwxyz'') c of
        Some l \<Rightarrow> l
      | None \<Rightarrow> c)"

definition ToLower :: "string \<Rightarrow> string" where
  "ToLower s = map to_lower_char s"

text \<open>\<open>strings.Split\<close> with a separator of one byte, and \<open>strings.Join\<close>.\<close>

fun Split :: "string \<Rightarrow> char \<Rightarrow> string list" where
  "Split [] sep = [] # []"
| "Split (c # cs) sep =
     (if c = sep then [] # Split cs sep
      else (case Split cs sep of
              [] \<Rightarrow> [c] # []
            | p # ps \<Rightarrow> (c # p) # ps))"

fun strings_Join :: "string list \<Rightarrow> string \<Rightarrow> string" where
  "strings_Join [] sep = []"
| "strings_Join [e] sep = e"
| "strings_Join (e # es) sep = e @ sep @ strings_Join es sep"

text \<open>
  \<open>filepath.Ext\<close> scans the path from its end and returns the suffix that starts at the
  last dot of the last element, or the empty string when a separator comes first.
  \<open>ext_scan\<close> is that loop over the reversed path, with the bytes already passed in \<open>acc\<close>.
\<close>

fun ext_scan :: "string \<Rightarrow> string \<Rightarrow> string" where
  "ext_scan [] acc = []"
| "ext_scan (c # cs) acc =
     (if c = CHR ''/'' then []
      else if c = CHR ''.'' then c # acc
      else ext_scan cs (c # acc))"

definition Ext :: "string \<Rightarrow> string" where
  "Ext path = ext_scan (rev path) []"

text \<open>
  \<open>filepath.Base\<close>: the last element of the path, after removing trailing separators;
  \<open>.\<close> for the empty path and \<open>/\<close> for a path of separators only.
\<close>

definition Base :: "string \<Rightarrow> string" where
  "Base path =
     (if path = [] then ''.''
      else let stripped = rev (dropWhile (\<lambda>c. c = CHR ''/'') (rev path));
               element = rev (takeWhile (\<lambda>c. c \<noteq> CHR ''/'') (rev stripped))
           in if element = [] then ''/'' else element)"

text \<open>
  \<open>filepath.Clean\<close>, by the elements of the path: empty elements and \<open>.\<close> are dropped;
  \<open>..\<close> removes the element before it when that is not itself \<open>..\<close>, is dropped at the
  root of a rooted path, and is kept at the start of a relative one. The result of an
  empty relative path is \<open>.\<close>.
\<close>

fun clean_elems :: "bool \<Rightarrow> string list \<Rightarrow> string list \<Rightarrow> string list" where
  "clean_elems rooted [] out = out"
| "clean_elems rooted (e # es) out =
     (if e = [] \<or> e = ''.'' then clean_elems rooted es out
      else if e = ''..'' then
        (if out \<noteq> [] \<and> last out \<noteq> ''..'' then clean_elems rooted es (butlast out)
         else if \<not> rooted then clean_elems rooted es (out @ [''..''])
         else clean_elems rooted es out)
      else clean_elems rooted es (out @ [e]))"

definition Clean :: "string \<Rightarrow> string" where
  "Clean path =
     (if path = [] then ''.''
      else let rooted = (hd path = CHR ''/'');
               out = clean_elems rooted (Split path (CHR ''/'')) []
           in if rooted then CHR ''/'' # strings_Join out ''/''
              else if out = [] then ''.''
              else strings_Join out ''/'')"

text \<open>
  \<open>filepath.Join\<close> skips the leading empty elements, joins the rest with the separator
  and cleans the result; with no non-empty element the result is the empty string.
\<close>

definition Join :: "string list \<Rightarrow> string" where
  "Join elem =
     (case dropWhile (\<lambda>e. e = []) elem of
        [] \<Rightarrow> []
      | es \<Rightarrow> Clean (strings_Join es ''/''))"

text \<open>
  \<open>filepath.Match\<close> for patterns built from literal bytes and \<open>*\<close>, which matches any
  run of bytes other than the separator. The patterns of this program use nothing else.
\<close>

fun Match :: "string \<Rightarrow> string \<Rightarrow> bool" where
  "Match [] name = (name = [])"
| "Match (p # ps) [] = (p = CHR ''*'' \<and> Match ps [])"
| "Match (p # ps) (c # cs) =
     (if p = CHR ''*'' then Match ps (c # cs) \<or> (c \<noteq> CHR ''/'' \<and> Match (p # ps) cs)
      else p = c \<and> Match ps cs)"

text \<open>\<open>fmt.Sprintf\<close> with the verbs \<open>%d\<close> of an int and \<open>%v\<close> of a slice of ints.\<close>

fun fmt_nat :: "nat \<Rightarrow> string" where
  "fmt_nat n =
     (if n < 10 then [''0123456789'' ! n]
      else fmt_nat (n div 10) @ [''0123456789'' ! (n mod 10)])"

definition fmt_int :: "int \<Rightarrow> string" where
  "fmt_int i = (if i < 0 then CHR ''-'' # fmt_nat (nat (- i)) else fmt_nat (nat i))"

definition fmt_ints :: "int list \<Rightarrow> string" where
  "fmt_ints xs = ''['' @ strings_Join (map fmt_int xs) '' '' @ '']''"

definition IsMediaFile :: "string \<Rightarrow> bool" where
  "IsMediaFile path =
     (ToLower (Ext path) \<in> set [''.mkv'', ''.mp4'', ''.avi'', ''.mov'', ''.wmv'', ''.flv'',
        ''.webm'', ''.m4v'', ''.mpg'', ''.mpeg'', ''.ts''])"

definition IsSubtitleFile :: "string \<Rightarrow> bool" where
  "IsSubtitleFile path =
     (ToLower (Ext path) \<in> set [''.srt'', ''.ass'', ''.ssa'', ''.vtt'', ''.sub'', ''.idx'',
        ''.pgs''])"

section \<open>Path remapping\<close>

text \<open>
  The mapping table is a Go map, and the order in which \<open>range\<close> visits its entries is
  not fixed. The table is modelled by the list of its entries in the order in which the
  call at hand visits them, so a statement for every list is a statement for every
  order. The loop stops at the first entry whose cleaned prefix is a prefix of the
  cleaned path.
\<close>

fun NormalizePath_loop :: "string \<Rightarrow> (string \<times> string) list \<Rightarrow> string" where
  "NormalizePath_loop normalized [] = normalized"
| "NormalizePath_loop normalized ((apiPath, fsPath) # rest) =
     (let apiPathClean = Clean apiPath
      in if HasPrefix normalized apiPathClean then
           (let relative = TrimPrefix normalized apiPathClean
            in Join [fsPath, relative])
         else NormalizePath_loop normalized rest)"

definition NormalizePath :: "string \<Rightarrow> (string \<times> string) list \<Rightarrow> string" where
  "NormalizePath path mappings =
     (if length mappings = 0 then Clean path
      else NormalizePath_loop (Clean path) mappings)"

fun NormalizePathReverse_loop :: "string \<Rightarrow> (string \<times> string) list \<Rightarrow> string" where
  "NormalizePathReverse_loop normalized [] = normalized"
| "NormalizePathReverse_loop normalized ((apiPath, fsPath) # rest) =
     (let fsPathClean = Clean fsPath
      in if HasPrefix normalized fsPathClean then
           (let relative = TrimPrefix normalized fsPathClean
            in Join [apiPath, relative])
         else NormalizePathReverse_loop normalized rest)"

definition NormalizePathReverse :: "string \<Rightarrow> (string \<times> string) list \<Rightarrow> string" where
  "NormalizePathReverse path mappings =
     (if length mappings = 0 then Clean path
      else NormalizePathReverse_loop (Clean path) mappings)"

section \<open>Suspicious files\<close>

record SuspiciousFile =
  Path :: string
  Reason :: string

definition defaultSuspiciousExtensions :: "string list" where
  "defaultSuspiciousExtensions =
     [''.exe'', ''.msi'', ''.bat'', ''.cmd'', ''.com'', ''.scr'',
      ''.ps1'', ''.vbs'', ''.js'', ''.jar'', ''.dll'', ''.sys'',
      ''.reg'', ''.lnk'', ''.pif'', ''.apk'', ''.dmg'', ''.pkg'',
      ''.iso'', ''.zip'', ''.rar'', ''.7z'', ''.tar'', ''.gz'']"

definition isArchiveExtension :: "string \<Rightarrow> bool" where
  "isArchiveExtension ext =
     (ext \<in> set [''.zip'', ''.rar'', ''.7z'', ''.tar'', ''.gz'', ''.iso''])"

definition isMediaExtension :: "string \<Rightarrow> bool" where
  "isMediaExtension ext =
     (ToLower ext \<in> set [''mkv'', ''mp4'', ''avi'', ''mov'', ''wmv'', ''flv'', ''webm'',
        ''m4v'', ''mpg'', ''mpeg''])"

text \<open>
  The two loops of \<open>IsSuspicious\<close> over the extensions; \<open>None\<close> means the loop ended
  without returning.
\<close>

fun extension_loop :: "string \<Rightarrow> bool \<Rightarrow> string list \<Rightarrow> (bool \<times> string) option" where
  "extension_loop ext flagArchives [] = None"
| "extension_loop ext flagArchives (susExt # rest) =
     (if ext = susExt then
        (if isArchiveExtension ext \<and> \<not> flagArchives then Some (False, [])
         else Some (True, ''suspicious_extension''))
      else extension_loop ext flagArchives rest)"

fun double_extension_loop :: "string \<Rightarrow> string \<Rightarrow> string list \<Rightarrow> (bool \<times> string) option" where
  "double_extension_loop lastExt penultimate [] = None"
| "double_extension_loop lastExt penultimate (susExt # rest) =
     (if lastExt = susExt \<and> \<not> isMediaExtension penultimate
      then Some (True, ''double_extension'')
      else double_extension_loop lastExt penultimate rest)"

definition IsSuspicious :: "string \<Rightarrow> string list \<Rightarrow> bool \<Rightarrow> bool \<times> string" where
  "IsSuspicious path extensions flagArchives =
     (let extensions = (if length extensions = 0 then defaultSuspiciousExtensions
                        else extensions);
          ext = ToLower (Ext path)
      in if ext = [] then (False, [])
         else case extension_loop ext flagArchives extensions of
                Some r \<Rightarrow> r
              | None \<Rightarrow>
                  (let base = Base path;
                       parts = Split base (CHR ''.'')
                   in if length parts > 2 then
                        (let lastExt = ''.'' @ ToLower (parts ! (length parts - 1))
                         in case double_extension_loop lastExt
                                   (parts ! (length parts - 2)) extensions of
                              Some r \<Rightarrow> r
                            | None \<Rightarrow> (False, []))
                      else (False, [])))"

section \<open>Permissions\<close>

record FilePermissions =
  Path :: string
  Mode :: "32 word"
  OwnerUID :: int
  GroupGID :: int
  IsDirectory :: bool

text \<open>The mode bits \<open>02000\<close> and \<open>0020\<close> of the source are octal: 1024 and 16.\<close>

definition HasSGID :: "FilePermissions \<Rightarrow> bool" where
  "HasSGID fp = (and (Mode fp) 1024 \<noteq> 0)"

definition GroupWritable :: "FilePermissions \<Rightarrow> bool" where
  "GroupWritable fp = (and (Mode fp) 16 \<noteq> 0)"

record PermissionIssue =
  Path :: string
  CurrentMode :: "32 word"
  ExpectedMode :: "32 word"
  Owner :: int
  Group :: int
  Issue :: string
  Severity :: string
  FixHint :: string

definition metadataPatterns :: "string list" where
  "metadataPatterns =
     [''*-thumb.jpg'', ''*-thumb.png'',
      ''poster.jpg'', ''poster.png'',
      ''backdrop.jpg'', ''backdrop.png'',
      ''folder.jpg'', ''folder.png'',
      ''logo.png'',
      ''logo.svg'',
      ''season*-poster.jpg'', ''season*-poster.png'',
      ''banner.jpg'', ''landscape.jpg'', ''clearlogo.png'',
      ''*.nfo'',
      ''*.torrent'']"

fun matches_any :: "string \<Rightarrow> string list \<Rightarrow> bool" where
  "matches_any filename [] = False"
| "matches_any filename (pattern # rest) =
     (if Match pattern filename then True else matches_any filename rest)"

definition IsMetadataFile :: "string \<Rightarrow> bool" where
  "IsMetadataFile path = matches_any (Base path) metadataPatterns"

section \<open>The engine\<close>

record SummaryStats =
  TotalFiles :: int
  HealthyCount :: int
  AtRiskCount :: int
  OrphanCount :: int
  SuspiciousCount :: int
  PermissionErrors :: int
  PermissionWarnings :: int
  Duration :: Duration

record AnalysisResult =
  ClassifiedMedia :: "ClassifiedMedia list"
  SuspiciousFiles :: "SuspiciousFile list"
  UnlinkedTorrents :: "Torrent list"
  PermissionIssues :: "PermissionIssue list"
  Summary :: SummaryStats

record Engine =
  sonarrGraceHours :: int
  radarrGraceHours :: int
  qbittorrentGraceHours :: int
  suspiciousExtensions :: "string list"
  flagArchives :: bool
  permissionsEnabled :: bool
  expectedGroupGID :: int
  allowedUIDs :: "int list"
  sgidPaths :: "string list"
  skipPaths :: "string list"
  nonstandardSeverity :: string

text \<open>\<open>result := &AnalysisResult{}\<close>: every list nil and every counter zero.\<close>

definition empty_result :: AnalysisResult where
  "empty_result =
     \<lparr>ClassifiedMedia = [], SuspiciousFiles = [], UnlinkedTorrents = [],
      PermissionIssues = [],
      Summary = \<lparr>TotalFiles = 0, HealthyCount = 0, AtRiskCount = 0, OrphanCount = 0,
                 SuspiciousCount = 0, PermissionErrors = 0, PermissionWarnings = 0,
                 Duration = 0\<rparr>\<rparr>"

definition normalizePath :: "string \<Rightarrow> string" where
  "normalizePath p = ToLower (Clean p)"

fun shouldSkip :: "string \<Rightarrow> string list \<Rightarrow> bool" where
  "shouldSkip path [] = False"
| "shouldSkip path (skip # rest) =
     (if HasPrefix path skip then True else shouldSkip path rest)"

definition getGraceHours :: "Engine \<Rightarrow> ArrFile option \<Rightarrow> int" where
  "getGraceHours e arrFile =
     (case arrFile of
        None \<Rightarrow> 0
      | Some a \<Rightarrow>
          if SeriesID a > 0 then sonarrGraceHours e
          else if MovieID a > 0 then radarrGraceHours e
          else 0)"

text \<open>
  The lookup maps a normalized path to the record stored last under it. The source
  stores pointers into the two input slices, which nothing writes to afterwards.
\<close>

fun insert_arr_files :: "(string \<rightharpoonup> ArrFile) \<Rightarrow> ArrFile list \<Rightarrow> (string \<rightharpoonup> ArrFile)" where
  "insert_arr_files lookup [] = lookup"
| "insert_arr_files lookup (f # fs) =
     insert_arr_files (lookup(normalizePath (ArrFile.Path f) \<mapsto> f)) fs"

definition buildArrLookup :: "ArrFile list \<Rightarrow> ArrFile list \<Rightarrow> (string \<rightharpoonup> ArrFile)" where
  "buildArrLookup sonarrFiles radarrFiles =
     insert_arr_files (insert_arr_files Map.empty sonarrFiles) radarrFiles"

fun matching_file_loop :: "string \<Rightarrow> (string \<rightharpoonup> ArrFile) \<Rightarrow> string list \<Rightarrow> bool" where
  "matching_file_loop savePath mediaLookup [] = False"
| "matching_file_loop savePath mediaLookup (f # fs) =
     (let fullPath = Join [savePath, f]
      in if mediaLookup (normalizePath fullPath) \<noteq> None then True
         else matching_file_loop savePath mediaLookup fs)"

definition hasMatchingMediaFile :: "Torrent \<Rightarrow> (string \<rightharpoonup> ArrFile) \<Rightarrow> bool" where
  "hasMatchingMediaFile t mediaLookup = matching_file_loop (SavePath t) mediaLookup (Files t)"

definition getReason :: "MediaClassification \<Rightarrow> MediaFile \<Rightarrow> ArrFile option \<Rightarrow> string" where
  "getReason class media arrFile =
     (if class = MediaHealthy then ''Tracked by Arr and hardlinked to torrent''
      else if class = MediaAtRisk
        then ''Tracked by Arr but NOT hardlinked (no torrent protection)''
      else if class = MediaOrphan then ''Not tracked by Arr (outside grace window)''
      else ''Unknown classification'')"

fun isValidOwner_loop :: "int \<Rightarrow> int list \<Rightarrow> bool" where
  "isValidOwner_loop uid [] = False"
| "isValidOwner_loop uid (allowed # rest) =
     (if uid = allowed then True else isValidOwner_loop uid rest)"

definition isValidOwner :: "Engine \<Rightarrow> int \<Rightarrow> bool" where
  "isValidOwner e uid = isValidOwner_loop uid (allowedUIDs e)"

fun shouldHaveSGID_loop :: "string \<Rightarrow> string list \<Rightarrow> bool" where
  "shouldHaveSGID_loop path [] = False"
| "shouldHaveSGID_loop path (sgidPath # rest) =
     (if HasPrefix path sgidPath then True else shouldHaveSGID_loop path rest)"

definition shouldHaveSGID :: "Engine \<Rightarrow> string \<Rightarrow> bool" where
  "shouldHaveSGID e path = shouldHaveSGID_loop path (sgidPaths e)"

text \<open>A \<open>PermissionIssue\<close> literal of the source sets four fields; the others are zero.\<close>

definition issue :: "string \<Rightarrow> string \<Rightarrow> string \<Rightarrow> string \<Rightarrow> PermissionIssue" where
  "issue path kind severity hint =
     \<lparr>PermissionIssue.Path = path, CurrentMode = 0, ExpectedMode = 0, Owner = 0, Group = 0,
      Issue = kind, Severity = severity, FixHint = hint\<rparr>"

definition auditPermissions :: "Engine \<Rightarrow> FilePermissions \<Rightarrow> PermissionIssue list" where
  "auditPermissions e file =
     (if IsMetadataFile (FilePermissions.Path file) then []
      else
        let issues = [];
            issues =
              (if \<not> isValidOwner e (OwnerUID file) then
                 (if IsDirectory file \<and> OwnerUID file = 0 then
                    issues @ [issue (FilePermissions.Path file) ''wrong_owner'' ''warning''
                      (''Directory owned by root (UID 0), expected one of: ''
                         @ fmt_ints (allowedUIDs e))]
                  else
                    issues @ [issue (FilePermissions.Path file) ''wrong_owner'' ''error''
                      (''File owned by UID '' @ fmt_int (OwnerUID file)
                         @ '', expected one of: '' @ fmt_ints (allowedUIDs e))])
               else issues);
            issues =
              (if GroupGID file \<noteq> expectedGroupGID e then
                 issues @ [issue (FilePermissions.Path file) ''wrong_group'' ''error''
                   (''File group is GID '' @ fmt_int (GroupGID file) @ '', expected ''
                      @ fmt_int (expectedGroupGID e))]
               else issues);
            issues =
              (if \<not> GroupWritable file then
                 issues @ [issue (FilePermissions.Path file) ''not_group_writable''
                   ''warning'' ''Group cannot write to file'']
               else issues);
            issues =
              (if IsDirectory file \<and> shouldHaveSGID e (FilePermissions.Path file)
                  \<and> \<not> HasSGID file then
                 issues @ [issue (FilePermissions.Path file) ''missing_sgid'' ''warning''
                   ''Directory missing SGID bit (new files won't inherit group)'']
               else issues)
        in issues)"

text \<open>
  The body of the loop of \<open>Analyze\<close> over the media files: the result so far and one
  file give the next result; a \<open>continue\<close> leaves the result as it is.
\<close>

definition count_classification :: "MediaClassification \<Rightarrow> SummaryStats \<Rightarrow> SummaryStats" where
  "count_classification classification s =
     (let s = (if classification = MediaHealthy then s\<lparr>HealthyCount := HealthyCount s + 1\<rparr>
               else if classification = MediaAtRisk then s\<lparr>AtRiskCount := AtRiskCount s + 1\<rparr>
               else if classification = MediaOrphan then s\<lparr>OrphanCount := OrphanCount s + 1\<rparr>
               else s)
      in s\<lparr>TotalFiles := TotalFiles s + 1\<rparr>)"

definition analyze_media ::
  "Engine \<Rightarrow> Time \<Rightarrow> (string \<rightharpoonup> ArrFile) \<Rightarrow> AnalysisResult \<Rightarrow> MediaFile \<Rightarrow> AnalysisResult" where
  "analyze_media e now arrLookup result media =
     (if shouldSkip (MediaFile.Path media) (skipPaths e) then result
      else
        let arrFile = arrLookup (normalizePath (MediaFile.Path media));
            graceHours = getGraceHours e arrFile;
            (classification, shouldInclude) = ClassifyMedia now media arrFile graceHours
        in if \<not> shouldInclude then result
           else if classification = MediaOrphan \<and> IsSubtitleFile (MediaFile.Path media)
             then result
           else
             let arrSource =
                   (case arrFile of
                      None \<Rightarrow> []
                    | Some a \<Rightarrow>
                        if SeriesID a > 0 then ''sonarr''
                        else if MovieID a > 0 then ''radarr''
                        else []);
                 result = result\<lparr>ClassifiedMedia := ClassifiedMedia result @
                   [\<lparr>File = media,
                     KnownToArr = (arrFile \<noteq> None \<and> IsKnown arrFile),
                     ArrSource = arrSource,
                     Classification = classification,
                     Reason = getReason classification media arrFile\<rparr>]\<rparr>;
                 result = result\<lparr>Summary := count_classification classification (Summary result)\<rparr>;
                 (isSuspicious, reason) =
                   IsSuspicious (MediaFile.Path media) (suspiciousExtensions e) (flagArchives e)
             in if isSuspicious then
                  result\<lparr>SuspiciousFiles := SuspiciousFiles result @
                           [\<lparr>SuspiciousFile.Path = MediaFile.Path media,
                             SuspiciousFile.Reason = reason\<rparr>],
                         Summary := (Summary result)
                           \<lparr>SuspiciousCount := SuspiciousCount (Summary result) + 1\<rparr>\<rparr>
                else result)"

text \<open>The body of the loop over the torrents.\<close>

definition analyze_torrent ::
  "Engine \<Rightarrow> Time \<Rightarrow> (string \<rightharpoonup> ArrFile) \<Rightarrow> AnalysisResult \<Rightarrow> Torrent \<Rightarrow> AnalysisResult" where
  "analyze_torrent e now arrLookup result t =
     (if State t = StateCompleted
         \<and> \<not> Torrent_WithinGraceWindow now t (qbittorrentGraceHours e) then
        (if \<not> hasMatchingMediaFile t arrLookup then
           result\<lparr>UnlinkedTorrents := UnlinkedTorrents result @ [t]\<rparr>
         else result)
      else result)"

text \<open>The body of the loop over the permission records, and its inner loop.\<close>

definition count_issue :: "SummaryStats \<Rightarrow> PermissionIssue \<Rightarrow> SummaryStats" where
  "count_issue s i =
     (if Severity i = ''error'' then s\<lparr>PermissionErrors := PermissionErrors s + 1\<rparr>
      else s\<lparr>PermissionWarnings := PermissionWarnings s + 1\<rparr>)"

definition analyze_permission ::
  "Engine \<Rightarrow> AnalysisResult \<Rightarrow> FilePermissions \<Rightarrow> AnalysisResult" where
  "analyze_permission e result perm =
     (if shouldSkip (FilePermissions.Path perm) (skipPaths e) then result
      else
        let issues = auditPermissions e perm;
            result = result\<lparr>PermissionIssues := PermissionIssues result @ issues\<rparr>
        in result\<lparr>Summary := foldl count_issue (Summary result) issues\<rparr>)"

text \<open>
  \<open>Analyze\<close>. The clock is read once for each grace test in the source; here every test
  of one run reads the same \<open>now\<close>.
\<close>

definition Analyze ::
  "Engine \<Rightarrow> Time \<Rightarrow> MediaFile list \<Rightarrow> ArrFile list \<Rightarrow> ArrFile list \<Rightarrow> Torrent list
     \<Rightarrow> FilePermissions list \<Rightarrow> AnalysisResult" where
  "Analyze e now mediaFiles sonarrFiles radarrFiles torrents permissions =
     (let result = empty_result;
          arrLookup = buildArrLookup sonarrFiles radarrFiles;
          result = foldl (analyze_media e now arrLookup) result mediaFiles;
          result = foldl (analyze_torrent e now arrLookup) result torrents;
          result = (if permissionsEnabled e
                    then foldl (analyze_permission e) result permissions
                    else result)
      in result)"

section \<open>Example inputs\<close>

text \<open>
  An engine with the default grace hours, and a clock reading with two reference times:
  ten days and two hours before it.
\<close>

definition ex_engine :: Engine where
  "ex_engine =
     \<lparr>sonarrGraceHours = 48, radarrGraceHours = 48, qbittorrentGraceHours = 24,
      suspiciousExtensions = [], flagArchives = False, permissionsEnabled = True,
      expectedGroupGID = 1000, allowedUIDs = [1001, 1002], sgidPaths = [''/media''],
      skipPaths = [''/media/.trash''], nonstandardSeverity = ''info''\<rparr>"

definition ex_now :: Time where
  "ex_now = 63900000000000000000"

definition ex_ten_days_ago :: Time where
  "ex_ten_days_ago = 63899136000000000000"

definition ex_two_hours_ago :: Time where
  "ex_two_hours_ago = 63899992800000000000"

text \<open>
  An episode in the library, hardlinked to the file of a completed torrent, and known to
  the series manager under its library path.
\<close>

definition ex_library_file :: MediaFile where
  "ex_library_file =
     \<lparr>MediaFile.Path = ''/media/tv/Show/S01E01.mkv'', Size = 1000,
      ModTime = ex_ten_days_ago, HardlinkCount = 2, IsHardlinked = True,
      Source = ''library''\<rparr>"

definition ex_download_file :: MediaFile where
  "ex_download_file =
     \<lparr>MediaFile.Path = ''/torrents/Show.S01E01/S01E01.mkv'', Size = 1000,
      ModTime = ex_ten_days_ago, HardlinkCount = 2, IsHardlinked = True,
      Source = ''torrent''\<rparr>"

definition ex_record :: ArrFile where
  "ex_record =
     \<lparr>ArrFile.Path = ''/media/tv/Show/S01E01.mkv'', SeriesID = 7, EpisodeID = 70,
      MovieID = 0, Monitored = True, ImportDate = ex_ten_days_ago\<rparr>"

definition ex_torrent :: Torrent where
  "ex_torrent =
     \<lparr>Hash = ''abc123'', Name = ''Show.S01E01'', SavePath = ''/torrents'',
      State = ''completed'', CompletedOn = ex_ten_days_ago,
      Files = [''Show.S01E01/S01E01.mkv'']\<rparr>"

text \<open>
  A file with an executable's extension, imported two hours ago and known to the series
  manager.
\<close>

definition ex_recent_exe :: MediaFile where
  "ex_recent_exe =
     \<lparr>MediaFile.Path = ''/media/tv/Show/S01E02.mkv.exe'', Size = 1000,
      ModTime = ex_two_hours_ago, HardlinkCount = 1, IsHardlinked = False,
      Source = ''library''\<rparr>"

definition ex_exe_record :: ArrFile where
  "ex_exe_record =
     \<lparr>ArrFile.Path = ''/media/tv/Show/S01E02.mkv.exe'', SeriesID = 7, EpisodeID = 71,
      MovieID = 0, Monitored = True, ImportDate = ex_two_hours_ago\<rparr>"

text \<open>A directory and a plain file, both owned by root.\<close>

definition ex_root_directory :: FilePermissions where
  "ex_root_directory =
     \<lparr>FilePermissions.Path = ''/media/tv/Show'', Mode = 1533, OwnerUID = 0,
      GroupGID = 1000, IsDirectory = True\<rparr>"

definition ex_root_file :: FilePermissions where
  "ex_root_file =
     \<lparr>FilePermissions.Path = ''/media/tv/Show/S01E01.mkv'', Mode = 436, OwnerUID = 0,
      GroupGID = 1000, IsDirectory = False\<rparr>"

section \<open>Notions used to state the properties\<close>

text \<open>
  A media file is reported when the loop of \<open>Analyze\<close> reaches the \<open>append\<close> to
  \<open>ClassifiedMedia\<close> for it: it is under no skip path, the classifier includes it, and it
  is not a subtitle file classified as an orphan.
\<close>

definition reported :: "Engine \<Rightarrow> Time \<Rightarrow> (string \<rightharpoonup> ArrFile) \<Rightarrow> MediaFile \<Rightarrow> bool" where
  "reported e now arrLookup media =
     (let arrFile = arrLookup (normalizePath (MediaFile.Path media));
          c = ClassifyMedia now media arrFile (getGraceHours e arrFile)
      in \<not> shouldSkip (MediaFile.Path media) (skipPaths e) \<and> snd c
         \<and> \<not> (fst c = MediaOrphan \<and> IsSubtitleFile (MediaFile.Path media)))"

definition classification_of ::
  "Engine \<Rightarrow> Time \<Rightarrow> (string \<rightharpoonup> ArrFile) \<Rightarrow> MediaFile \<Rightarrow> MediaClassification" where
  "classification_of e now arrLookup media =
     (let arrFile = arrLookup (normalizePath (MediaFile.Path media))
      in fst (ClassifyMedia now media arrFile (getGraceHours e arrFile)))"

definition flagged :: "Engine \<Rightarrow> MediaFile \<Rightarrow> bool" where
  "flagged e media =
     fst (IsSuspicious (MediaFile.Path media) (suspiciousExtensions e) (flagArchives e))"

definition suspicious_entry :: "Engine \<Rightarrow> MediaFile \<Rightarrow> SuspiciousFile" where
  "suspicious_entry e media =
     \<lparr>SuspiciousFile.Path = MediaFile.Path media,
      SuspiciousFile.Reason =
        snd (IsSuspicious (MediaFile.Path media) (suspiciousExtensions e) (flagArchives e))\<rparr>"

text \<open>The number of entries of a list of classified media with a given classification.\<close>

definition count_class :: "MediaClassification \<Rightarrow> ClassifiedMedia list \<Rightarrow> int" where
  "count_class c ms = int (length (filter (\<lambda>x. x = c) (map Classification ms)))"

definition counters_agree :: "AnalysisResult \<Rightarrow> bool" where
  "counters_agree r =
     (TotalFiles (Summary r) = int (length (ClassifiedMedia r))
      \<and> HealthyCount (Summary r) = count_class MediaHealthy (ClassifiedMedia r)
      \<and> AtRiskCount (Summary r) = count_class MediaAtRisk (ClassifiedMedia r)
      \<and> OrphanCount (Summary r) = count_class MediaOrphan (ClassifiedMedia r)
      \<and> TotalFiles (Summary r)
          = HealthyCount (Summary r) + AtRiskCount (Summary r) + OrphanCount (Summary r)
      \<and> SuspiciousCount (Summary r) = int (length (SuspiciousFiles r)))"

text \<open>
  A torrent is unlinked when the loop of \<open>Analyze\<close> over the torrents appends it.
\<close>

definition unlinked :: "Engine \<Rightarrow> Time \<Rightarrow> (string \<rightharpoonup> ArrFile) \<Rightarrow> Torrent \<Rightarrow> bool" where
  "unlinked e now arrLookup t =
     (State t = StateCompleted
      \<and> \<not> Torrent_WithinGraceWindow now t (qbittorrentGraceHours e)
      \<and> \<not> hasMatchingMediaFile t arrLookup)"

section \<open>The state that outlives a run\<close>

text \<open>
  \<open>Analyze\<close> has a pointer receiver, its five arguments are slices that share their
  backing arrays with the caller, the lookup it builds holds pointers into two of them,
  and the functions it calls read the package-level variables
  \<open>defaultSuspiciousExtensions\<close> and \<open>metadataPatterns\<close>. A \<open>World\<close> is everything a run
  can reach that is still there when the run has returned: the engine object, the five
  backing arrays and the two package-level variables. In this part of the model every
  function that is given the receiver, that takes or follows a pointer into an input
  slice, or that reads a package-level variable takes the world and returns it as its
  statements leave it, and the loops over the slices read the element of each iteration
  from the world of that iteration.
\<close>

record World =
  the_engine :: Engine
  mediaFiles_array :: "MediaFile list"
  sonarrFiles_array :: "ArrFile list"
  radarrFiles_array :: "ArrFile list"
  torrents_array :: "Torrent list"
  permissions_array :: "FilePermissions list"
  var_defaultSuspiciousExtensions :: "string list"
  var_metadataPatterns :: "string list"

text \<open>The pointers \<open>&sonarrFiles[i]\<close> and \<open>&radarrFiles[i]\<close>, and what they point to.\<close>

datatype ArrRef = SonarrRef nat | RadarrRef nat

definition deref :: "World \<Rightarrow> ArrRef \<Rightarrow> ArrFile" where
  "deref w r =
     (case r of
        SonarrRef i \<Rightarrow> sonarrFiles_array w ! i
      | RadarrRef i \<Rightarrow> radarrFiles_array w ! i)"

text \<open>
  \<open>buildArrLookup\<close>: the two loops over the indices of the slices. Every index is below
  the length of its slice, so every pointer stored is valid.
\<close>

fun insert_sonarr_ref ::
  "(string \<rightharpoonup> ArrRef) \<times> World \<Rightarrow> nat \<Rightarrow> (string \<rightharpoonup> ArrRef) \<times> World" where
  "insert_sonarr_ref (lookup, w) i =
     (lookup(normalizePath (ArrFile.Path (sonarrFiles_array w ! i)) \<mapsto> SonarrRef i), w)"

fun insert_radarr_ref ::
  "(string \<rightharpoonup> ArrRef) \<times> World \<Rightarrow> nat \<Rightarrow> (string \<rightharpoonup> ArrRef) \<times> World" where
  "insert_radarr_ref (lookup, w) i =
     (lookup(normalizePath (ArrFile.Path (radarrFiles_array w ! i)) \<mapsto> RadarrRef i), w)"

definition buildArrLookup_in :: "World \<Rightarrow> (string \<rightharpoonup> ArrRef) \<times> World" where
  "buildArrLookup_in w =
     (let (lookup, w) = foldl insert_sonarr_ref (Map.empty, w)
                          [0..<length (sonarrFiles_array w)];
          (lookup, w) = foldl insert_radarr_ref (lookup, w)
                          [0..<length (radarrFiles_array w)]
      in (lookup, w))"

text \<open>
  \<open>getGraceHours\<close> follows the pointer it is given and reads the fields of the engine.
\<close>

definition getGraceHours_in :: "World \<Rightarrow> ArrRef option \<Rightarrow> int \<times> World" where
  "getGraceHours_in w arrFile =
     (case arrFile of
        None \<Rightarrow> (0, w)
      | Some r \<Rightarrow>
          if SeriesID (deref w r) > 0 then (sonarrGraceHours (the_engine w), w)
          else if MovieID (deref w r) > 0 then (radarrGraceHours (the_engine w), w)
          else (0, w))"

text \<open>\<open>IsSuspicious\<close>, reading the default extensions from the package-level variable.\<close>

definition IsSuspicious_in ::
  "World \<Rightarrow> string \<Rightarrow> string list \<Rightarrow> bool \<Rightarrow> (bool \<times> string) \<times> World" where
  "IsSuspicious_in w path extensions archives =
     (let extensions = (if length extensions = 0 then var_defaultSuspiciousExtensions w
                        else extensions);
          ext = ToLower (Ext path)
      in if ext = [] then ((False, []), w)
         else case extension_loop ext archives extensions of
                Some r \<Rightarrow> (r, w)
              | None \<Rightarrow>
                  (let base = Base path;
                       parts = Split base (CHR ''.'')
                   in if length parts > 2 then
                        (let lastExt = ''.'' @ ToLower (parts ! (length parts - 1))
                         in case double_extension_loop lastExt
                                   (parts ! (length parts - 2)) extensions of
                              Some r \<Rightarrow> (r, w)
                            | None \<Rightarrow> ((False, []), w))
                      else ((False, []), w)))"

text \<open>\<open>IsMetadataFile\<close>, reading the patterns from the package-level variable.\<close>

definition IsMetadataFile_in :: "World \<Rightarrow> string \<Rightarrow> bool \<times> World" where
  "IsMetadataFile_in w path = (matches_any (Base path) (var_metadataPatterns w), w)"

text \<open>
  \<open>auditPermissions\<close>, \<open>isValidOwner\<close> and \<open>shouldHaveSGID\<close> have the engine as their
  receiver.
\<close>

definition isValidOwner_in :: "World \<Rightarrow> int \<Rightarrow> bool \<times> World" where
  "isValidOwner_in w uid = (isValidOwner_loop uid (allowedUIDs (the_engine w)), w)"

definition shouldHaveSGID_in :: "World \<Rightarrow> string \<Rightarrow> bool \<times> World" where
  "shouldHaveSGID_in w path = (shouldHaveSGID_loop path (sgidPaths (the_engine w)), w)"

definition auditPermissions_in :: "World \<Rightarrow> FilePermissions \<Rightarrow> PermissionIssue list \<times> World" where
  "auditPermissions_in w file =
     (let (metadata, w) = IsMetadataFile_in w (FilePermissions.Path file)
      in if metadata then ([], w)
         else
           let issues = [];
               (valid, w) = isValidOwner_in w (OwnerUID file);
               issues =
                 (if \<not> valid then
                    (if IsDirectory file \<and> OwnerUID file = 0 then
                       issues @ [issue (FilePermissions.Path file) ''wrong_owner'' ''warning''
                         (''Directory owned by root (UID 0), expected one of: ''
                            @ fmt_ints (allowedUIDs (the_engine w)))]
                     else
                       issues @ [issue (FilePermissions.Path file) ''wrong_owner'' ''error''
                         (''File owned by UID '' @ fmt_int (OwnerUID file)
                            @ '', expected one of: '' @ fmt_ints (allowedUIDs (the_engine w)))])
                  else issues);
               issues =
                 (if GroupGID file \<noteq> expectedGroupGID (the_engine w) then
                    issues @ [issue (FilePermissions.Path file) ''wrong_group'' ''error''
                      (''File group is GID '' @ fmt_int (GroupGID file) @ '', expected ''
                         @ fmt_int (expectedGroupGID (the_engine w)))]
                  else issues);
               issues =
                 (if \<not> GroupWritable file then
                    issues @ [issue (FilePermissions.Path file) ''not_group_writable''
                      ''warning'' ''Group cannot write to file'']
                  else issues);
               (sgid, w) = shouldHaveSGID_in w (FilePermissions.Path file);
               issues =
                 (if IsDirectory file \<and> sgid \<and> \<not> HasSGID file then
                    issues @ [issue (FilePermissions.Path file) ''missing_sgid'' ''warning''
                      ''Directory missing SGID bit (new files won't inherit group)'']
                  else issues)
           in (issues, w))"

text \<open>
  \<open>hasMatchingMediaFile\<close> is given a copy of the torrent, whose \<open>Files\<close> slice still
  shares its backing array with the torrent in the world, and the lookup of pointers.
\<close>

fun matching_ref_loop :: "string \<Rightarrow> (string \<rightharpoonup> ArrRef) \<Rightarrow> string list \<Rightarrow> bool" where
  "matching_ref_loop savePath mediaLookup [] = False"
| "matching_ref_loop savePath mediaLookup (f # fs) =
     (let fullPath = Join [savePath, f]
      in if mediaLookup (normalizePath fullPath) \<noteq> None then True
         else matching_ref_loop savePath mediaLookup fs)"

definition hasMatchingMediaFile_in ::
  "World \<Rightarrow> Torrent \<Rightarrow> (string \<rightharpoonup> ArrRef) \<Rightarrow> bool \<times> World" where
  "hasMatchingMediaFile_in w t mediaLookup =
     (matching_ref_loop (SavePath t) mediaLookup (Files t), w)"

text \<open>
  The bodies of the three loops of \<open>Analyze\<close>, each for the index of one iteration. The
  loop variable is a copy of the element that the slice holds when the iteration starts.
\<close>

fun analyze_media_in ::
  "Time \<Rightarrow> (string \<rightharpoonup> ArrRef) \<Rightarrow> AnalysisResult \<times> World \<Rightarrow> nat \<Rightarrow> AnalysisResult \<times> World" where
  "analyze_media_in now arrLookup (result, w) i =
     (let media = mediaFiles_array w ! i
      in if shouldSkip (MediaFile.Path media) (skipPaths (the_engine w)) then (result, w)
         else
           let arrFile = arrLookup (normalizePath (MediaFile.Path media));
               (graceHours, w) = getGraceHours_in w arrFile;
               (classification, shouldInclude) =
                 ClassifyMedia now media (map_option (deref w) arrFile) graceHours
           in if \<not> shouldInclude then (result, w)
              else if classification = MediaOrphan \<and> IsSubtitleFile (MediaFile.Path media)
                then (result, w)
              else
                let arrSource =
                      (case arrFile of
                         None \<Rightarrow> []
                       | Some r \<Rightarrow>
                           if SeriesID (deref w r) > 0 then ''sonarr''
                           else if MovieID (deref w r) > 0 then ''radarr''
                           else []);
                    result = result\<lparr>ClassifiedMedia := ClassifiedMedia result @
                      [\<lparr>File = media,
                        KnownToArr = (arrFile \<noteq> None \<and> IsKnown (map_option (deref w) arrFile)),
                        ArrSource = arrSource,
                        Classification = classification,
                        Reason = getReason classification media
                                   (map_option (deref w) arrFile)\<rparr>]\<rparr>;
                    result = result\<lparr>Summary :=
                               count_classification classification (Summary result)\<rparr>;
                    ((isSuspicious, reason), w) =
                      IsSuspicious_in w (MediaFile.Path media)
                        (suspiciousExtensions (the_engine w)) (flagArchives (the_engine w))
                in if isSuspicious then
                     (result\<lparr>SuspiciousFiles := SuspiciousFiles result @
                              [\<lparr>SuspiciousFile.Path = MediaFile.Path media,
                                SuspiciousFile.Reason = reason\<rparr>],
                            Summary := (Summary result)
                              \<lparr>SuspiciousCount := SuspiciousCount (Summary result) + 1\<rparr>\<rparr>,
                      w)
                   else (result, w))"

fun analyze_torrent_in ::
  "Time \<Rightarrow> (string \<rightharpoonup> ArrRef) \<Rightarrow> AnalysisResult \<times> World \<Rightarrow> nat \<Rightarrow> AnalysisResult \<times> World" where
  "analyze_torrent_in now arrLookup (result, w) i =
     (let t = torrents_array w ! i
      in if State t = StateCompleted
            \<and> \<not> Torrent_WithinGraceWindow now t (qbittorrentGraceHours (the_engine w)) then
           (let (matching, w) = hasMatchingMediaFile_in w t arrLookup
            in if \<not> matching then
                 (result\<lparr>UnlinkedTorrents := UnlinkedTorrents result @ [t]\<rparr>, w)
               else (result, w))
         else (result, w))"

fun analyze_permission_in :: "AnalysisResult \<times> World \<Rightarrow> nat \<Rightarrow> AnalysisResult \<times> World" where
  "analyze_permission_in (result, w) i =
     (let perm = permissions_array w ! i
      in if shouldSkip (FilePermissions.Path perm) (skipPaths (the_engine w)) then (result, w)
         else
           let (issues, w) = auditPermissions_in w perm;
               result = result\<lparr>PermissionIssues := PermissionIssues result @ issues\<rparr>
           in (result\<lparr>Summary := foldl count_issue (Summary result) issues\<rparr>, w))"

text \<open>
  \<open>Analyze\<close> on the world: the receiver is the engine of the world and the arguments are
  the five slices over its arrays. The length of a slice is read when its loop starts.
\<close>

definition Analyze_in :: "Time \<Rightarrow> World \<Rightarrow> AnalysisResult \<times> World" where
  "Analyze_in now w =
     (let result = empty_result;
          (arrLookup, w) = buildArrLookup_in w;
          (result, w) = foldl (analyze_media_in now arrLookup) (result, w)
                          [0..<length (mediaFiles_array w)];
          (result, w) = foldl (analyze_torrent_in now arrLookup) (result, w)
                          [0..<length (torrents_array w)];
          (result, w) = (if permissionsEnabled (the_engine w)
                         then foldl analyze_permission_in (result, w)
                                [0..<length (permissions_array w)]
                         else (result, w))
      in (result, w))"

text \<open>
  Two runs at the same clock reading, the second in the world that the first has left.
  The value is the result of the first run, the result of the second, and the world
  after both.
\<close>

definition Analyze_twice :: "Time \<Rightarrow> World \<Rightarrow> AnalysisResult \<times> AnalysisResult \<times> World" where
  "Analyze_twice now w =
     (let (first, w) = Analyze_in now w;
          (second, w) = Analyze_in now w
      in (first, second, w))"

text \<open>
  The world at the start of the program holds in its package-level variables the values
  of their declarations.
\<close>

definition initial_vars :: "World \<Rightarrow> bool" where
  "initial_vars w =
     (var_defaultSuspiciousExtensions w = defaultSuspiciousExtensions
      \<and> var_metadataPatterns w = metadataPatterns)"

text \<open>The example inputs as a world.\<close>

definition ex_world :: World where
  "ex_world =
     \<lparr>the_engine = ex_engine,
      mediaFiles_array = [ex_library_file, ex_download_file, ex_recent_exe],
      sonarrFiles_array = [ex_record, ex_exe_record],
      radarrFiles_array = [],
      torrents_array = [ex_torrent],
      permissions_array = [ex_root_directory, ex_root_file],
      var_defaultSuspiciousExtensions = defaultSuspiciousExtensions,
      var_metadataPatterns = metadataPatterns\<rparr>"

section \<open>Grace windows\<close>

text \<open>
  C6: with a grace period of zero or fewer hours the grace-window test is false for every
  clock reading and every reference time, for the modification time of a media file and
  for the completion time of a torrent alike.
\<close>

theorem no_grace_when_hours_nonpositive:
  "hours \<le> 0 \<Longrightarrow>
     \<not> MediaFile_WithinGraceWindow now m hours \<and> \<not> Torrent_WithinGraceWindow now t hours"
  by (simp add: MediaFile_WithinGraceWindow_def Torrent_WithinGraceWindow_def)

theorem no_grace_when_hours_nonpositive_witness:
  "(-5::int) \<le> 0 \<and>
   \<not> MediaFile_WithinGraceWindow 1000
       \<lparr>MediaFile.Path = ''/media/a.mkv'', Size = 1, ModTime = 999, HardlinkCount = 1,
        IsHardlinked = False, Source = ''library''\<rparr> (-5) \<and>
   \<not> Torrent_WithinGraceWindow 1000
       \<lparr>Hash = ''h'', Name = ''n'', SavePath = ''/t'', State = ''completed'',
        CompletedOn = 0, Files = []\<rparr> (-5)"
  using no_grace_when_hours_nonpositive
    [of "-5" 1000
      "\<lparr>MediaFile.Path = ''/media/a.mkv'', Size = 1, ModTime = 999, HardlinkCount = 1,
        IsHardlinked = False, Source = ''library''\<rparr>"
      "\<lparr>Hash = ''h'', Name = ''n'', SavePath = ''/t'', State = ''completed'',
        CompletedOn = 0, Files = []\<rparr>"]
  by simp

text \<open>
  C5, as the code has it: a torrent whose completion time is the zero value is within
  grace for every positive number of grace hours. The test for a non-positive number of
  hours comes first in the code and answers false.
\<close>

theorem zero_completion_within_grace:
  "0 < hours \<Longrightarrow> IsZero (CompletedOn t) \<Longrightarrow> Torrent_WithinGraceWindow now t hours"
  by (simp add: Torrent_WithinGraceWindow_def)

theorem zero_completion_within_grace_witness:
  "(0::int) < 24 \<and>
   IsZero (CompletedOn \<lparr>Hash = ''h'', Name = ''n'', SavePath = ''/t'',
     State = ''downloading'', CompletedOn = 0, Files = []\<rparr>) \<and>
   Torrent_WithinGraceWindow 1000 \<lparr>Hash = ''h'', Name = ''n'', SavePath = ''/t'',
     State = ''downloading'', CompletedOn = 0, Files = []\<rparr> 24"
  using zero_completion_within_grace
    [of 24 "\<lparr>Hash = ''h'', Name = ''n'', SavePath = ''/t'',
     State = ''downloading'', CompletedOn = 0, Files = []\<rparr>" 1000]
  by (simp add: IsZero_def)

theorem zero_completion_zero_hours_counterexample:
  "IsZero (CompletedOn \<lparr>Hash = ''h'', Name = ''n'', SavePath = ''/t'',
     State = ''downloading'', CompletedOn = 0, Files = []\<rparr>) \<and>
   \<not> Torrent_WithinGraceWindow 1000 \<lparr>Hash = ''h'', Name = ''n'', SavePath = ''/t'',
     State = ''downloading'', CompletedOn = 0, Files = []\<rparr> 0"
  by (simp add: IsZero_def Torrent_WithinGraceWindow_def)

section \<open>The media classifier\<close>

text \<open>
  C1: \<open>ClassifyMedia\<close> is the four-case mapping. A file within the grace window of the
  given grace hours gets no classification and is not included; otherwise a file with no
  managed record is an orphan, a hardlinked file with a record is healthy, and any other
  file with a record is at risk; all three are included.
\<close>

theorem ClassifyMedia_four_cases:
  "ClassifyMedia now media arrFile graceHours =
     (if MediaFile_WithinGraceWindow now media graceHours then ([], False)
      else if arrFile = None then (MediaOrphan, True)
      else if IsHardlinked media then (MediaHealthy, True)
      else (MediaAtRisk, True))"
  by (simp add: ClassifyMedia_def MediaFile_WithinGraceWindow_def)

section \<open>Path remapping\<close>

lemma NormalizePath_loop_find:
  "NormalizePath_loop n ms =
     (case find (\<lambda>(apiPath, fsPath). HasPrefix n (Clean apiPath)) ms of
        None \<Rightarrow> n
      | Some (apiPath, fsPath) \<Rightarrow> Join [fsPath, TrimPrefix n (Clean apiPath)])"
  by (induction ms) (auto simp: Let_def)

lemma NormalizePathReverse_loop_find:
  "NormalizePathReverse_loop n ms =
     (case find (\<lambda>(apiPath, fsPath). HasPrefix n (Clean fsPath)) ms of
        None \<Rightarrow> n
      | Some (apiPath, fsPath) \<Rightarrow> Join [apiPath, TrimPrefix n (Clean fsPath)])"
  by (induction ms) (auto simp: Let_def)

text \<open>
  C7, as the code has it: \<open>NormalizePath\<close> rewrites the cleaned path with the first entry,
  in the order in which the table is visited, whose cleaned prefix is a prefix of the
  cleaned path, and \<open>NormalizePathReverse\<close> does the same in the other direction; a path
  that no entry matches comes back cleaned and otherwise unchanged. No entry is
  preferred for the length of its prefix.
\<close>

theorem NormalizePath_first_match:
  "NormalizePath path mappings =
     (case find (\<lambda>(apiPath, fsPath). HasPrefix (Clean path) (Clean apiPath)) mappings of
        None \<Rightarrow> Clean path
      | Some (apiPath, fsPath) \<Rightarrow> Join [fsPath, TrimPrefix (Clean path) (Clean apiPath)])
   \<and> NormalizePathReverse path mappings =
     (case find (\<lambda>(apiPath, fsPath). HasPrefix (Clean path) (Clean fsPath)) mappings of
        None \<Rightarrow> Clean path
      | Some (apiPath, fsPath) \<Rightarrow> Join [apiPath, TrimPrefix (Clean path) (Clean fsPath)])"
  by (cases mappings)
     (simp_all add: NormalizePath_def NormalizePathReverse_def
        NormalizePath_loop_find NormalizePathReverse_loop_find
        del: NormalizePath_loop.simps NormalizePathReverse_loop.simps)

text \<open>
  Two prefixes match \<open>/data/media/x\<close>; the table is visited with the shorter one first,
  and the result is the substitution of the shorter one, not of the longest.
\<close>

theorem NormalizePath_longest_prefix_counterexample:
  "HasPrefix (Clean ''/data/media/x'') (Clean ''/data'') \<and>
   HasPrefix (Clean ''/data/media/x'') (Clean ''/data/media'') \<and>
   length (Clean ''/data'') < length (Clean ''/data/media'') \<and>
   Join [''/mnt/b'', TrimPrefix (Clean ''/data/media/x'') (Clean ''/data/media'')]
     = ''/mnt/b/x'' \<and>
   NormalizePath ''/data/media/x'' [(''/data'', ''/mnt/a''), (''/data/media'', ''/mnt/b'')]
     = ''/mnt/a/media/x'' \<and>
   NormalizePath ''/data/media/x'' [(''/data'', ''/mnt/a''), (''/data/media'', ''/mnt/b'')]
     \<noteq> Join [''/mnt/b'', TrimPrefix (Clean ''/data/media/x'') (Clean ''/data/media'')]"
  by (simp add: NormalizePath_def Clean_def HasPrefix_def TrimPrefix_def Join_def)

section \<open>The suspicious-file detector\<close>

text \<open>
  The path of a file with an extension ends in a dot and the extension, and so does its
  base name; the last part of the base name split at the dots is the extension.
\<close>

lemma Split_not_Nil: "Split s sep \<noteq> []"
  by (induction s) (auto split: list.splits)

lemma Split_append:
  "Split (q @ sep # suf) sep = Split q sep @ Split suf sep"
proof (induction q)
  case Nil
  show ?case by simp
next
  case (Cons c q)
  obtain p ps where sp: "Split q sep = p # ps"
    using Split_not_Nil [of q sep] by (cases "Split q sep") auto
  show ?case using Cons sp by simp
qed

lemma Split_no_sep: "sep \<notin> set s \<Longrightarrow> Split s sep = [s]"
  by (induction s) auto

lemma last_Split:
  "sep \<notin> set suf \<Longrightarrow> last (Split (q @ sep # suf) sep) = suf"
  by (simp add: Split_append Split_no_sep)

lemma ext_scan_shape:
  "ext_scan xs acc \<noteq> [] \<Longrightarrow>
     \<exists>seg rest. xs = seg @ CHR ''.'' # rest \<and> CHR ''.'' \<notin> set seg \<and> CHR ''/'' \<notin> set seg
        \<and> ext_scan xs acc = CHR ''.'' # rev seg @ acc"
proof (induction xs arbitrary: acc)
  case Nil
  then show ?case by simp
next
  case (Cons c cs)
  show ?case
  proof (cases "c = CHR ''/''")
    case True
    with Cons.prems show ?thesis by simp
  next
    case notslash: False
    show ?thesis
    proof (cases "c = CHR ''.''")
      case True
      then have "c # cs = [] @ CHR ''.'' # cs \<and> ext_scan (c # cs) acc = CHR ''.'' # rev [] @ acc"
        by simp
      then show ?thesis by (metis empty_iff list.set(1))
    next
      case False
      with notslash Cons.prems have ne: "ext_scan cs (c # acc) \<noteq> []" by simp
      from Cons.IH [OF ne] obtain seg rest where
        h: "cs = seg @ CHR ''.'' # rest" "CHR ''.'' \<notin> set seg" "CHR ''/'' \<notin> set seg"
           "ext_scan cs (c # acc) = CHR ''.'' # rev seg @ c # acc"
        by blast
      have "c # cs = (c # seg) @ CHR ''.'' # rest \<and> CHR ''.'' \<notin> set (c # seg)
            \<and> CHR ''/'' \<notin> set (c # seg)
            \<and> ext_scan (c # cs) acc = CHR ''.'' # rev (c # seg) @ acc"
        using h False notslash by simp
      then show ?thesis by blast
    qed
  qed
qed

lemma Ext_shape:
  assumes "Ext path \<noteq> []"
  shows "\<exists>pre suf. path = pre @ CHR ''.'' # suf \<and> CHR ''.'' \<notin> set suf \<and> CHR ''/'' \<notin> set suf
           \<and> Ext path = CHR ''.'' # suf"
proof -
  from assms have "ext_scan (rev path) [] \<noteq> []" by (simp add: Ext_def)
  from ext_scan_shape [OF this] obtain seg rest where
    h: "rev path = seg @ CHR ''.'' # rest" "CHR ''.'' \<notin> set seg" "CHR ''/'' \<notin> set seg"
       "ext_scan (rev path) [] = CHR ''.'' # rev seg @ []"
    by blast
  from h(1) have "path = rev rest @ CHR ''.'' # rev seg"
    by (metis rev_rev_ident rev_append rev.simps(2) append.assoc append_Cons append_Nil)
  then show ?thesis using h by (auto simp: Ext_def)
qed

lemma Base_shape:
  assumes "CHR ''/'' \<notin> set suf"
  shows "\<exists>q. Base (pre @ CHR ''.'' # suf) = q @ CHR ''.'' # suf"
proof -
  let ?p = "pre @ CHR ''.'' # suf"
  have nodrop: "dropWhile (\<lambda>c. c = CHR ''/'') (rev suf @ CHR ''.'' # rev pre)
                  = rev suf @ CHR ''.'' # rev pre"
  proof (cases "rev suf")
    case Nil
    then show ?thesis by simp
  next
    case (Cons a as)
    then have "a \<in> set (rev suf)" by simp
    then have "a \<noteq> CHR ''/''" using assms by auto
    then show ?thesis using Cons by simp
  qed
  have tw: "takeWhile (\<lambda>c. c \<noteq> CHR ''/'') (rev suf @ CHR ''.'' # rev pre)
              = rev suf @ CHR ''.'' # takeWhile (\<lambda>c. c \<noteq> CHR ''/'') (rev pre)"
  proof -
    have "\<And>x. x \<in> set (rev suf) \<Longrightarrow> x \<noteq> CHR ''/''" using assms by auto
    then have "takeWhile (\<lambda>c. c \<noteq> CHR ''/'') (rev suf @ CHR ''.'' # rev pre)
                 = rev suf @ takeWhile (\<lambda>c. c \<noteq> CHR ''/'') (CHR ''.'' # rev pre)"
      by (rule takeWhile_append2)
    then show ?thesis by simp
  qed
  have "Base ?p = rev (takeWhile (\<lambda>c. c \<noteq> CHR ''/'') (rev pre)) @ CHR ''.'' # suf"
    by (simp add: Base_def Let_def nodrop tw)
  then show ?thesis by blast
qed

lemma extension_loop_None:
  "extension_loop ext fa exts = None \<Longrightarrow> ext \<notin> set exts"
  by (induction exts) (auto split: if_splits)

lemma extension_loop_Some:
  "extension_loop ext fa exts = Some r \<Longrightarrow> r = (False, []) \<or> r = (True, ''suspicious_extension'')"
  by (induction exts) (auto split: if_splits)

lemma double_extension_loop_None:
  "lastExt \<notin> set exts \<Longrightarrow> double_extension_loop lastExt pen exts = None"
  by (induction exts) auto

lemma to_lower_dot: "to_lower_char (CHR ''.'') = CHR ''.''"
  by (simp add: to_lower_char_def)

lemma IsSuspicious_results:
  "IsSuspicious path extensions fa = (False, [])
   \<or> IsSuspicious path extensions fa = (True, ''suspicious_extension'')"
proof -
  define exts where
    "exts = (if length extensions = 0 then defaultSuspiciousExtensions else extensions)"
  define ext where "ext = ToLower (Ext path)"
  define parts where "parts = Split (Base path) (CHR ''.'')"
  have eq: "IsSuspicious path extensions fa =
      (if ext = [] then (False, [])
       else case extension_loop ext fa exts of
              Some r \<Rightarrow> r
            | None \<Rightarrow>
                if length parts > 2 then
                  (case double_extension_loop (''.'' @ ToLower (parts ! (length parts - 1)))
                          (parts ! (length parts - 2)) exts of
                     Some r \<Rightarrow> r
                   | None \<Rightarrow> (False, []))
                else (False, []))"
    unfolding IsSuspicious_def Let_def exts_def ext_def parts_def ..
  show ?thesis
  proof (cases "ext = []")
    case True
    then show ?thesis by (simp add: eq)
  next
    case False
    then have "Ext path \<noteq> []" by (auto simp: ext_def ToLower_def)
    from Ext_shape [OF this] obtain pre suf where
      h: "path = pre @ CHR ''.'' # suf" "CHR ''.'' \<notin> set suf" "CHR ''/'' \<notin> set suf"
         "Ext path = CHR ''.'' # suf"
      by blast
    show ?thesis
    proof (cases "extension_loop ext fa exts")
      case (Some r)
      with extension_loop_Some [OF Some] False show ?thesis
        by (auto simp: eq)
    next
      case None
      from Base_shape [OF h(3), of pre] h(1) obtain q where
        b: "Base path = q @ CHR ''.'' # suf" by blast
      have p: "parts = Split q (CHR ''.'') @ [suf]"
        using b h(2) by (simp add: parts_def Split_append Split_no_sep)
      have "parts ! (length parts - 1) = suf"
        unfolding p by simp
      then have lastExt: "''.'' @ ToLower (parts ! (length parts - 1)) = ext"
        using h(4) by (simp add: ext_def ToLower_def to_lower_dot)
      have "ext \<notin> set exts" using extension_loop_None [OF None] .
      then have "double_extension_loop ext pen exts = None" for pen
        by (rule double_extension_loop_None)
      then show ?thesis
        unfolding eq lastExt using None False by simp
    qed
  qed
qed

text \<open>
  The second loop of \<open>IsSuspicious\<close> compares the same final extension with the same
  list as the first, which has returned on every match, so the reason
  \<open>double_extension\<close> is never returned.
\<close>

lemma IsSuspicious_never_double_extension:
  "snd (IsSuspicious path extensions fa) \<noteq> ''double_extension''"
  using IsSuspicious_results [of path extensions fa] by auto

lemmas IsSuspicious_eval =
  IsSuspicious_def Ext_def Base_def ToLower_def to_lower_char_def
  defaultSuspiciousExtensions_def isArchiveExtension_def isMediaExtension_def

lemma IsSuspicious_archive_zip: "fst (IsSuspicious ''archive.zip'' [] fa) = fa"
  by (simp add: IsSuspicious_eval)

lemma IsSuspicious_episode: "IsSuspicious ''show.S01E01.mkv'' [] fa = (False, [])"
  by (simp add: IsSuspicious_eval)

text \<open>
  C4 at the spec's own example: with the default extensions \<open>movie.mkv.exe\<close> is flagged,
  with the reason \<open>suspicious_extension\<close>, not \<open>double_extension\<close>; and \<open>movie.mkv.zip\<close>,
  whose final extension is in the set and whose penultimate segment is a media
  extension, is not flagged at all when archives are not flagged.
\<close>

theorem IsSuspicious_double_extension_examples:
  "IsSuspicious ''movie.mkv.exe'' [] False = (True, ''suspicious_extension'') \<and>
   IsSuspicious ''movie.mkv.exe'' [] True = (True, ''suspicious_extension'') \<and>
   isMediaExtension ''mkv'' \<and>
   IsSuspicious ''movie.mkv.zip'' [] False = (False, [])"
  by (simp add: IsSuspicious_eval)

section \<open>The permission auditor\<close>

lemma isValidOwner_loop_set: "isValidOwner_loop uid allowed = (uid \<in> set allowed)"
  by (induction allowed) auto

text \<open>
  C8: for a permission record whose path is no metadata artifact and whose owner is not
  in the allow-list, \<open>auditPermissions\<close> returns exactly one issue of kind
  \<open>wrong_owner\<close>, for the path of the record, with severity \<open>warning\<close> when the record
  is a directory owned by UID 0 and \<open>error\<close> otherwise.
\<close>

theorem wrong_owner_issue:
  "\<not> IsMetadataFile (FilePermissions.Path file) \<Longrightarrow>
   OwnerUID file \<notin> set (allowedUIDs e) \<Longrightarrow>
   map (\<lambda>i. (PermissionIssue.Path i, Severity i))
       (filter (\<lambda>i. Issue i = ''wrong_owner'') (auditPermissions e file))
     = [(FilePermissions.Path file,
         if IsDirectory file \<and> OwnerUID file = 0 then ''warning'' else ''error'')]"
  by (simp add: auditPermissions_def isValidOwner_def isValidOwner_loop_set issue_def Let_def)

lemma ex_not_metadata:
  "\<not> IsMetadataFile (FilePermissions.Path ex_root_directory)"
  "\<not> IsMetadataFile (FilePermissions.Path ex_root_file)"
  by (simp_all add: ex_root_directory_def ex_root_file_def IsMetadataFile_def Base_def
        metadataPatterns_def)

theorem wrong_owner_issue_witness:
  "\<not> IsMetadataFile (FilePermissions.Path ex_root_directory) \<and>
   OwnerUID ex_root_directory \<notin> set (allowedUIDs ex_engine) \<and>
   map (\<lambda>i. (PermissionIssue.Path i, Severity i))
       (filter (\<lambda>i. Issue i = ''wrong_owner'') (auditPermissions ex_engine ex_root_directory))
     = [(''/media/tv/Show'', ''warning'')] \<and>
   \<not> IsMetadataFile (FilePermissions.Path ex_root_file) \<and>
   OwnerUID ex_root_file \<notin> set (allowedUIDs ex_engine) \<and>
   map (\<lambda>i. (PermissionIssue.Path i, Severity i))
       (filter (\<lambda>i. Issue i = ''wrong_owner'') (auditPermissions ex_engine ex_root_file))
     = [(''/media/tv/Show/S01E01.mkv'', ''error'')]"
proof -
  have d: "OwnerUID ex_root_directory \<notin> set (allowedUIDs ex_engine)"
    by (simp add: ex_root_directory_def ex_engine_def)
  have f: "OwnerUID ex_root_file \<notin> set (allowedUIDs ex_engine)"
    by (simp add: ex_root_file_def ex_engine_def)
  show ?thesis
    using wrong_owner_issue [OF ex_not_metadata(1) d] wrong_owner_issue [OF ex_not_metadata(2) f]
      ex_not_metadata d f
    by (simp add: ex_root_directory_def ex_root_file_def)
qed

section \<open>The loops of the engine\<close>

text \<open>
  One step of the loop over the media files leaves the result alone for a file that is
  not reported, and for a reported file appends one entry and counts it.
\<close>

lemma ClassifyMedia_included:
  "ClassifyMedia now media arrFile g = (c, True) \<Longrightarrow>
     c = MediaHealthy \<or> c = MediaAtRisk \<or> c = MediaOrphan"
  by (auto simp: ClassifyMedia_def Let_def split: if_splits)

lemma classes_distinct:
  "MediaHealthy \<noteq> MediaAtRisk" "MediaHealthy \<noteq> MediaOrphan" "MediaAtRisk \<noteq> MediaOrphan"
  by (simp_all add: MediaHealthy_def MediaAtRisk_def MediaOrphan_def)

lemma analyze_media_not_reported:
  "\<not> reported e now lk m \<Longrightarrow> analyze_media e now lk r m = r"
  by (auto simp: reported_def analyze_media_def Let_def case_prod_beta)

lemma analyze_media_files:
  "reported e now lk m \<Longrightarrow>
     map File (ClassifiedMedia (analyze_media e now lk r m)) = map File (ClassifiedMedia r) @ [m]"
  by (auto simp: reported_def analyze_media_def Let_def case_prod_beta)

lemma reported_classification:
  "reported e now lk m \<Longrightarrow>
     classification_of e now lk m = MediaHealthy \<or> classification_of e now lk m = MediaAtRisk
     \<or> classification_of e now lk m = MediaOrphan"
  unfolding reported_def classification_of_def Let_def
  using ClassifyMedia_included [of now m "lk (normalizePath (MediaFile.Path m))"
      "getGraceHours e (lk (normalizePath (MediaFile.Path m)))"]
  by (metis prod.collapse)

lemma analyze_media_classified:
  "reported e now lk m \<Longrightarrow>
     map Classification (ClassifiedMedia (analyze_media e now lk r m))
       = map Classification (ClassifiedMedia r) @ [classification_of e now lk m]"
  by (simp add: reported_def classification_of_def analyze_media_def Let_def case_prod_beta)

lemma analyze_media_suspicious:
  "reported e now lk m \<Longrightarrow>
     SuspiciousFiles (analyze_media e now lk r m)
       = SuspiciousFiles r @ (if flagged e m then [suspicious_entry e m] else [])"
  by (auto simp: reported_def flagged_def suspicious_entry_def analyze_media_def Let_def
      case_prod_beta)

lemma count_classification_SuspiciousCount:
  "SuspiciousCount (count_classification c s) = SuspiciousCount s"
  by (simp add: count_classification_def Let_def)

lemma analyze_media_summary:
  "reported e now lk m \<Longrightarrow>
     Summary (analyze_media e now lk r m)
       = (count_classification (classification_of e now lk m) (Summary r))
           \<lparr>SuspiciousCount := SuspiciousCount (Summary r) + (if flagged e m then 1 else 0)\<rparr>"
  by (auto simp: reported_def flagged_def classification_of_def analyze_media_def Let_def
        case_prod_beta count_classification_SuspiciousCount)

lemma analyze_media_others:
  "UnlinkedTorrents (analyze_media e now lk r m) = UnlinkedTorrents r"
  "PermissionIssues (analyze_media e now lk r m) = PermissionIssues r"
  by (simp_all add: analyze_media_def Let_def case_prod_beta)

lemma length_ClassifiedMedia_step:
  "reported e now lk m \<Longrightarrow>
     length (ClassifiedMedia (analyze_media e now lk r m)) = Suc (length (ClassifiedMedia r))"
  using arg_cong [OF analyze_media_classified, of e now lk m length r] by simp

lemma counters_agree_step:
  assumes "counters_agree r"
  shows "counters_agree (analyze_media e now lk r m)"
proof (cases "reported e now lk m")
  case False
  then show ?thesis using assms by (simp add: analyze_media_not_reported)
next
  case True
  note cls = reported_classification [OF True]
  show ?thesis
    using assms cls classes_distinct
    unfolding counters_agree_def count_class_def
      analyze_media_classified [OF True] analyze_media_summary [OF True]
      analyze_media_suspicious [OF True] length_ClassifiedMedia_step [OF True]
    by (auto simp: count_classification_def Let_def)
qed

lemma counters_agree_media_loop:
  "counters_agree r \<Longrightarrow> counters_agree (foldl (analyze_media e now lk) r ms)"
  by (induction ms arbitrary: r) (simp_all add: counters_agree_step)

lemma media_loop_files:
  "map File (ClassifiedMedia (foldl (analyze_media e now lk) r ms))
     = map File (ClassifiedMedia r) @ filter (reported e now lk) ms"
proof (induction ms arbitrary: r)
  case Nil
  show ?case by simp
next
  case (Cons m ms)
  show ?case
  proof (cases "reported e now lk m")
    case True
    then show ?thesis by (simp add: Cons.IH analyze_media_files)
  next
    case False
    then show ?thesis by (simp add: Cons.IH analyze_media_not_reported)
  qed
qed

lemma media_loop_suspicious:
  "SuspiciousFiles (foldl (analyze_media e now lk) r ms)
     = SuspiciousFiles r
       @ map (suspicious_entry e) (filter (\<lambda>m. reported e now lk m \<and> flagged e m) ms)"
proof (induction ms arbitrary: r)
  case Nil
  show ?case by simp
next
  case (Cons m ms)
  show ?case
  proof (cases "reported e now lk m")
    case True
    then show ?thesis by (simp add: Cons.IH analyze_media_suspicious)
  next
    case False
    then show ?thesis by (simp add: Cons.IH analyze_media_not_reported)
  qed
qed

lemma analyze_torrent_keeps:
  "ClassifiedMedia (analyze_torrent e now lk r t) = ClassifiedMedia r"
  "SuspiciousFiles (analyze_torrent e now lk r t) = SuspiciousFiles r"
  "Summary (analyze_torrent e now lk r t) = Summary r"
  by (simp_all add: analyze_torrent_def)

lemma torrent_loop_keeps:
  "ClassifiedMedia (foldl (analyze_torrent e now lk) r ts) = ClassifiedMedia r
   \<and> SuspiciousFiles (foldl (analyze_torrent e now lk) r ts) = SuspiciousFiles r
   \<and> Summary (foldl (analyze_torrent e now lk) r ts) = Summary r"
  by (induction ts arbitrary: r) (simp_all add: analyze_torrent_keeps)

lemma count_issue_keeps:
  "TotalFiles (count_issue s i) = TotalFiles s"
  "HealthyCount (count_issue s i) = HealthyCount s"
  "AtRiskCount (count_issue s i) = AtRiskCount s"
  "OrphanCount (count_issue s i) = OrphanCount s"
  "SuspiciousCount (count_issue s i) = SuspiciousCount s"
  by (simp_all add: count_issue_def)

lemma count_issues_keep:
  "TotalFiles (foldl count_issue s is) = TotalFiles s
   \<and> HealthyCount (foldl count_issue s is) = HealthyCount s
   \<and> AtRiskCount (foldl count_issue s is) = AtRiskCount s
   \<and> OrphanCount (foldl count_issue s is) = OrphanCount s
   \<and> SuspiciousCount (foldl count_issue s is) = SuspiciousCount s"
  by (induction "is" arbitrary: s) (simp_all add: count_issue_keeps)

lemma analyze_permission_keeps:
  "ClassifiedMedia (analyze_permission e r p) = ClassifiedMedia r"
  "SuspiciousFiles (analyze_permission e r p) = SuspiciousFiles r"
  "UnlinkedTorrents (analyze_permission e r p) = UnlinkedTorrents r"
  "TotalFiles (Summary (analyze_permission e r p)) = TotalFiles (Summary r)"
  "HealthyCount (Summary (analyze_permission e r p)) = HealthyCount (Summary r)"
  "AtRiskCount (Summary (analyze_permission e r p)) = AtRiskCount (Summary r)"
  "OrphanCount (Summary (analyze_permission e r p)) = OrphanCount (Summary r)"
  "SuspiciousCount (Summary (analyze_permission e r p)) = SuspiciousCount (Summary r)"
  by (simp_all add: analyze_permission_def Let_def count_issues_keep)

lemma permission_loop_keeps:
  "ClassifiedMedia (foldl (analyze_permission e) r ps) = ClassifiedMedia r
   \<and> SuspiciousFiles (foldl (analyze_permission e) r ps) = SuspiciousFiles r
   \<and> UnlinkedTorrents (foldl (analyze_permission e) r ps) = UnlinkedTorrents r
   \<and> TotalFiles (Summary (foldl (analyze_permission e) r ps)) = TotalFiles (Summary r)
   \<and> HealthyCount (Summary (foldl (analyze_permission e) r ps)) = HealthyCount (Summary r)
   \<and> AtRiskCount (Summary (foldl (analyze_permission e) r ps)) = AtRiskCount (Summary r)
   \<and> OrphanCount (Summary (foldl (analyze_permission e) r ps)) = OrphanCount (Summary r)
   \<and> SuspiciousCount (Summary (foldl (analyze_permission e) r ps))
       = SuspiciousCount (Summary r)"
  by (induction ps arbitrary: r) (simp_all add: analyze_permission_keeps)

text \<open>What \<open>Analyze\<close> returns, field by field, in terms of the media loop.\<close>

lemma Analyze_media_fields:
  "ClassifiedMedia (Analyze e now ms sf rf ts ps)
     = ClassifiedMedia (foldl (analyze_media e now (buildArrLookup sf rf)) empty_result ms)"
  "SuspiciousFiles (Analyze e now ms sf rf ts ps)
     = SuspiciousFiles (foldl (analyze_media e now (buildArrLookup sf rf)) empty_result ms)"
  "TotalFiles (Summary (Analyze e now ms sf rf ts ps))
     = TotalFiles (Summary (foldl (analyze_media e now (buildArrLookup sf rf)) empty_result ms))"
  "HealthyCount (Summary (Analyze e now ms sf rf ts ps))
     = HealthyCount (Summary (foldl (analyze_media e now (buildArrLookup sf rf)) empty_result ms))"
  "AtRiskCount (Summary (Analyze e now ms sf rf ts ps))
     = AtRiskCount (Summary (foldl (analyze_media e now (buildArrLookup sf rf)) empty_result ms))"
  "OrphanCount (Summary (Analyze e now ms sf rf ts ps))
     = OrphanCount (Summary (foldl (analyze_media e now (buildArrLookup sf rf)) empty_result ms))"
  "SuspiciousCount (Summary (Analyze e now ms sf rf ts ps))
     = SuspiciousCount (Summary (foldl (analyze_media e now (buildArrLookup sf rf)) empty_result ms))"
  by (simp_all add: Analyze_def Let_def torrent_loop_keeps permission_loop_keeps)

lemma counters_agree_empty: "counters_agree empty_result"
  by (simp add: counters_agree_def empty_result_def count_class_def)

lemma counters_agree_Analyze: "counters_agree (Analyze e now ms sf rf ts ps)"
  using counters_agree_media_loop [OF counters_agree_empty, of e now "buildArrLookup sf rf" ms]
  by (simp add: counters_agree_def Analyze_media_fields)

lemma Analyze_files:
  "map File (ClassifiedMedia (Analyze e now ms sf rf ts ps))
     = filter (reported e now (buildArrLookup sf rf)) ms"
  by (simp add: Analyze_media_fields media_loop_files empty_result_def)

text \<open>
  C10: in the result of \<open>Analyze\<close>, \<open>TotalFiles\<close> is the sum of the three
  per-classification counters and the length of \<open>ClassifiedMedia\<close>; each of the three
  counters is the number of entries with its classification; and the entries are, in
  order, the reported media files, so a file that is skipped, within grace or a subtitle
  orphan is counted nowhere.
\<close>

theorem Analyze_summary_counters:
  "TotalFiles (Summary (Analyze e now ms sf rf ts ps))
     = HealthyCount (Summary (Analyze e now ms sf rf ts ps))
       + AtRiskCount (Summary (Analyze e now ms sf rf ts ps))
       + OrphanCount (Summary (Analyze e now ms sf rf ts ps))
   \<and> TotalFiles (Summary (Analyze e now ms sf rf ts ps))
     = int (length (ClassifiedMedia (Analyze e now ms sf rf ts ps)))
   \<and> HealthyCount (Summary (Analyze e now ms sf rf ts ps))
     = count_class MediaHealthy (ClassifiedMedia (Analyze e now ms sf rf ts ps))
   \<and> AtRiskCount (Summary (Analyze e now ms sf rf ts ps))
     = count_class MediaAtRisk (ClassifiedMedia (Analyze e now ms sf rf ts ps))
   \<and> OrphanCount (Summary (Analyze e now ms sf rf ts ps))
     = count_class MediaOrphan (ClassifiedMedia (Analyze e now ms sf rf ts ps))
   \<and> map File (ClassifiedMedia (Analyze e now ms sf rf ts ps))
     = filter (reported e now (buildArrLookup sf rf)) ms"
  using counters_agree_Analyze [of e now ms sf rf ts ps] Analyze_files [of e now ms sf rf ts ps]
  unfolding counters_agree_def by blast

text \<open>
  A run with one file under a skip path and one hardlinked, managed file: two files are
  scanned and \<open>TotalFiles\<close> is 1.
\<close>

lemma TotalFiles_not_files_scanned:
  "TotalFiles (Summary (Analyze ex_engine ex_now
      [ex_library_file\<lparr>MediaFile.Path := ''/media/.trash/old.mkv''\<rparr>, ex_library_file]
      [ex_record] [] [] [])) = 1"
proof -
  have lk: "buildArrLookup [ex_record] [] = [''/media/tv/show/s01e01.mkv'' \<mapsto> ex_record]"
    by (simp add: buildArrLookup_def ex_record_def normalizePath_def Clean_def ToLower_def
          to_lower_char_def)
  have a: "\<not> reported ex_engine ex_now [''/media/tv/show/s01e01.mkv'' \<mapsto> ex_record]
              (ex_library_file\<lparr>MediaFile.Path := ''/media/.trash/old.mkv''\<rparr>)"
    by (simp add: reported_def ex_engine_def ex_library_file_def HasPrefix_def)
  have b: "reported ex_engine ex_now [''/media/tv/show/s01e01.mkv'' \<mapsto> ex_record]
              ex_library_file"
    by (simp add: reported_def ex_engine_def ex_library_file_def HasPrefix_def
          normalizePath_def Clean_def ToLower_def to_lower_char_def ClassifyMedia_def
          getGraceHours_def ex_record_def MediaFile_WithinGraceWindow_def Since_def
          Time_Sub_def minDuration_def maxDuration_def hours_Duration_def wrap64_def Hour_def
          ex_now_def ex_ten_days_ago_def MediaHealthy_def MediaOrphan_def)
  have "length (ClassifiedMedia (Analyze ex_engine ex_now
      [ex_library_file\<lparr>MediaFile.Path := ''/media/.trash/old.mkv''\<rparr>, ex_library_file]
      [ex_record] [] [] [])) = 1"
    using arg_cong [OF Analyze_files, of length ex_engine ex_now
      "[ex_library_file\<lparr>MediaFile.Path := ''/media/.trash/old.mkv''\<rparr>, ex_library_file]"
      "[ex_record]" "[]" "[]" "[]"]
    by (simp add: lk a b)
  then show ?thesis
    using counters_agree_Analyze [of ex_engine ex_now
      "[ex_library_file\<lparr>MediaFile.Path := ''/media/.trash/old.mkv''\<rparr>, ex_library_file]"
      "[ex_record]" "[]" "[]" "[]"]
    by (simp add: counters_agree_def)
qed

text \<open>
  C3, as the code has it: the suspicious-file check is the last step of the loop body,
  after the \<open>continue\<close> statements, so it runs on the reported files only. The
  suspicious files of a run are the reported files that \<open>IsSuspicious\<close> flags, in order
  and with its reason, and \<open>SuspiciousCount\<close> is their number.
\<close>

theorem suspicious_check_on_reported_files:
  "SuspiciousFiles (Analyze e now ms sf rf ts ps)
     = map (suspicious_entry e)
         (filter (\<lambda>m. reported e now (buildArrLookup sf rf) m \<and> flagged e m) ms)
   \<and> SuspiciousCount (Summary (Analyze e now ms sf rf ts ps))
     = int (length (SuspiciousFiles (Analyze e now ms sf rf ts ps)))"
  using counters_agree_Analyze [of e now ms sf rf ts ps]
  by (simp add: counters_agree_def Analyze_media_fields(2) media_loop_suspicious
        empty_result_def)

text \<open>
  A file under no skip path, known to the series manager and two hours old, so within
  its grace window of 48 hours: \<open>IsSuspicious\<close> holds for its path, and the run reports
  no suspicious file.
\<close>

theorem suspicious_within_grace_counterexample:
  "\<not> shouldSkip (MediaFile.Path ex_recent_exe) (skipPaths ex_engine) \<and>
   fst (IsSuspicious (MediaFile.Path ex_recent_exe) (suspiciousExtensions ex_engine)
          (flagArchives ex_engine)) \<and>
   MediaFile_WithinGraceWindow ex_now ex_recent_exe (sonarrGraceHours ex_engine) \<and>
   SuspiciousFiles (Analyze ex_engine ex_now [ex_recent_exe] [ex_exe_record] [] [] []) = [] \<and>
   SuspiciousCount (Summary (Analyze ex_engine ex_now [ex_recent_exe] [ex_exe_record] [] [] []))
     = 0"
proof -
  have lk: "buildArrLookup [ex_exe_record] []
              = [''/media/tv/show/s01e02.mkv.exe'' \<mapsto> ex_exe_record]"
    by (simp add: buildArrLookup_def ex_exe_record_def normalizePath_def Clean_def ToLower_def
          to_lower_char_def)
  have skip: "\<not> shouldSkip (MediaFile.Path ex_recent_exe) (skipPaths ex_engine)"
    by (simp add: ex_recent_exe_def ex_engine_def HasPrefix_def)
  have susp: "fst (IsSuspicious (MediaFile.Path ex_recent_exe) (suspiciousExtensions ex_engine)
          (flagArchives ex_engine))"
    by (simp add: ex_recent_exe_def ex_engine_def IsSuspicious_eval)
  have grace: "MediaFile_WithinGraceWindow ex_now ex_recent_exe (sonarrGraceHours ex_engine)"
    by (simp add: ex_recent_exe_def ex_engine_def MediaFile_WithinGraceWindow_def Since_def
          Time_Sub_def minDuration_def maxDuration_def hours_Duration_def wrap64_def Hour_def
          ex_now_def ex_two_hours_ago_def)
  have key: "normalizePath (MediaFile.Path ex_recent_exe) = ''/media/tv/show/s01e02.mkv.exe''"
    by (simp add: ex_recent_exe_def normalizePath_def Clean_def ToLower_def to_lower_char_def)
  have nrep: "\<not> reported ex_engine ex_now
          [''/media/tv/show/s01e02.mkv.exe'' \<mapsto> ex_exe_record] ex_recent_exe"
    using grace
    by (simp add: reported_def key getGraceHours_def ClassifyMedia_def ex_exe_record_def
          ex_engine_def)
  have a: "SuspiciousFiles (Analyze ex_engine ex_now [ex_recent_exe] [ex_exe_record] [] [] [])
             = []"
    unfolding Analyze_media_fields(2) media_loop_suspicious lk
    using nrep by (simp add: empty_result_def)
  have "SuspiciousCount (Summary (Analyze ex_engine ex_now [ex_recent_exe] [ex_exe_record] [] [] []))
          = 0"
    using counters_agree_Analyze [of ex_engine ex_now "[ex_recent_exe]" "[ex_exe_record]" "[]" "[]" "[]"]
    by (simp add: counters_agree_def a)
  with skip susp grace a show ?thesis by simp
qed

lemma matching_file_loop_iff:
  "matching_file_loop savePath lk fs
     = (\<exists>f \<in> set fs. lk (normalizePath (Join [savePath, f])) \<noteq> None)"
  by (induction fs) (auto simp: Let_def)

lemma media_loop_unlinked:
  "UnlinkedTorrents (foldl (analyze_media e now lk) r ms) = UnlinkedTorrents r"
  by (induction ms arbitrary: r) (simp_all add: analyze_media_others)

lemma torrent_loop_unlinked:
  "UnlinkedTorrents (foldl (analyze_torrent e now lk) r ts)
     = UnlinkedTorrents r @ filter (unlinked e now lk) ts"
  by (induction ts arbitrary: r) (simp_all add: analyze_torrent_def unlinked_def)

text \<open>
  What the code does for the torrents: the unlinked torrents of a run are the completed
  torrents outside the grace window none of whose files, joined with the save path and
  normalized, is a key of the managed-record lookup. Whether a file of the torrent is
  hardlinked on disk is not looked at.
\<close>

lemma Analyze_UnlinkedTorrents:
  "UnlinkedTorrents (Analyze e now ms sf rf ts ps)
     = filter (\<lambda>t. State t = StateCompleted
                 \<and> \<not> Torrent_WithinGraceWindow now t (qbittorrentGraceHours e)
                 \<and> \<not> (\<exists>f \<in> set (Files t).
                        buildArrLookup sf rf (normalizePath (Join [SavePath t, f])) \<noteq> None))
         ts"
proof -
  have "unlinked e now (buildArrLookup sf rf)
          = (\<lambda>t. State t = StateCompleted
                 \<and> \<not> Torrent_WithinGraceWindow now t (qbittorrentGraceHours e)
                 \<and> \<not> (\<exists>f \<in> set (Files t).
                        buildArrLookup sf rf (normalizePath (Join [SavePath t, f])) \<noteq> None))"
    by (rule ext) (simp add: unlinked_def hasMatchingMediaFile_def matching_file_loop_iff)
  then show ?thesis
    by (simp add: Analyze_def Let_def permission_loop_keeps torrent_loop_unlinked
          media_loop_unlinked empty_result_def)
qed

text \<open>
  C2 at a failing input: the only file of a completed torrent, ten days past completion,
  is on disk with two hardlinks, the other being the library copy that the series
  manager knows under the library path. The torrent is in \<open>UnlinkedTorrents\<close>.
\<close>

theorem hardlinked_torrent_reported_unlinked:
  "State ex_torrent = StateCompleted \<and>
   \<not> Torrent_WithinGraceWindow ex_now ex_torrent (qbittorrentGraceHours ex_engine) \<and>
   Files ex_torrent = [''Show.S01E01/S01E01.mkv''] \<and>
   Join [SavePath ex_torrent, ''Show.S01E01/S01E01.mkv''] = MediaFile.Path ex_download_file \<and>
   IsHardlinked ex_download_file \<and>
   UnlinkedTorrents
     (Analyze ex_engine ex_now [ex_library_file, ex_download_file] [ex_record] [] [ex_torrent] [])
     = [ex_torrent]"
proof -
  have lk: "buildArrLookup [ex_record] [] = [''/media/tv/show/s01e01.mkv'' \<mapsto> ex_record]"
    by (simp add: buildArrLookup_def ex_record_def normalizePath_def Clean_def ToLower_def
          to_lower_char_def)
  have st: "State ex_torrent = StateCompleted"
    by (simp add: ex_torrent_def StateCompleted_def)
  have grace: "\<not> Torrent_WithinGraceWindow ex_now ex_torrent (qbittorrentGraceHours ex_engine)"
    by (simp add: ex_torrent_def ex_engine_def Torrent_WithinGraceWindow_def IsZero_def
          Since_def Time_Sub_def minDuration_def maxDuration_def hours_Duration_def wrap64_def
          Hour_def ex_now_def ex_ten_days_ago_def)
  have join: "Join [''/torrents'', ''Show.S01E01/S01E01.mkv'']
                = ''/torrents/Show.S01E01/S01E01.mkv''"
    by (simp add: Join_def Clean_def)
  have key: "normalizePath ''/torrents/Show.S01E01/S01E01.mkv''
               = ''/torrents/show.s01e01/s01e01.mkv''"
    by (simp add: normalizePath_def Clean_def ToLower_def to_lower_char_def)
  have files: "Files ex_torrent = [''Show.S01E01/S01E01.mkv'']"
    and save: "SavePath ex_torrent = ''/torrents''"
    by (simp_all add: ex_torrent_def)
  have "UnlinkedTorrents
     (Analyze ex_engine ex_now [ex_library_file, ex_download_file] [ex_record] [] [ex_torrent] [])
     = [ex_torrent]"
    unfolding Analyze_UnlinkedTorrents lk
    using st grace by (simp add: files save join key)
  with st grace files show ?thesis
    by (simp add: save join ex_download_file_def)
qed

section \<open>Two runs in a row\<close>

text \<open>
  No function of a run changes the world: none of them assigns to a field of the engine,
  to an element of an input slice or to a package-level variable.
\<close>

lemma getGraceHours_in_frame: "snd (getGraceHours_in w a) = w"
  by (simp add: getGraceHours_in_def split: option.splits)

lemma IsSuspicious_in_frame: "snd (IsSuspicious_in w p x a) = w"
  by (simp add: IsSuspicious_in_def Let_def split: option.splits)

lemma auditPermissions_in_frame: "snd (auditPermissions_in w f) = w"
  by (simp add: auditPermissions_in_def IsMetadataFile_in_def isValidOwner_in_def
        shouldHaveSGID_in_def Let_def)

lemma insert_sonarr_ref_frame: "snd (insert_sonarr_ref p i) = snd p"
  by (cases p) simp

lemma insert_radarr_ref_frame: "snd (insert_radarr_ref p i) = snd p"
  by (cases p) simp

lemma analyze_media_in_frame: "snd (analyze_media_in now lk p i) = snd p"
  by (cases p) (simp add: Let_def case_prod_beta getGraceHours_in_frame IsSuspicious_in_frame)

lemma analyze_torrent_in_frame: "snd (analyze_torrent_in now lk p i) = snd p"
  by (cases p) (simp add: Let_def hasMatchingMediaFile_in_def)

lemma analyze_permission_in_frame: "snd (analyze_permission_in p i) = snd p"
  by (cases p) (simp add: Let_def case_prod_beta auditPermissions_in_frame)

text \<open>A loop whose body leaves the world alone leaves it alone.\<close>

lemma loop_frame:
  assumes "\<And>p i. snd (body p i) = snd p"
  shows "snd (foldl body p is) = snd p"
  using assms by (induction "is" arbitrary: p) simp_all

lemma buildArrLookup_in_frame: "snd (buildArrLookup_in w) = w"
  by (simp add: buildArrLookup_in_def case_prod_beta Let_def
        loop_frame [of insert_sonarr_ref, OF insert_sonarr_ref_frame]
        loop_frame [of insert_radarr_ref, OF insert_radarr_ref_frame])

lemma Analyze_in_frame: "snd (Analyze_in now w) = w"
  by (simp add: Analyze_in_def case_prod_beta Let_def buildArrLookup_in_frame
        loop_frame [of "analyze_media_in now lk" for lk, OF analyze_media_in_frame]
        loop_frame [of "analyze_torrent_in now lk" for lk, OF analyze_torrent_in_frame]
        loop_frame [of analyze_permission_in, OF analyze_permission_in_frame])

text \<open>
  C9: two runs of \<open>Analyze\<close> in a row at the same clock reading, the second started in
  the world that the first has left, return the same result: the same classified media,
  suspicious files, unlinked torrents, permission issues and summary. The first result
  is that of a single run, and after both runs the engine, the backing arrays of the
  input slices and the package-level variables are what they were before the first.
\<close>

theorem Analyze_twice_identical:
  "ClassifiedMedia (fst (Analyze_twice now w))
     = ClassifiedMedia (fst (snd (Analyze_twice now w)))
   \<and> SuspiciousFiles (fst (Analyze_twice now w))
     = SuspiciousFiles (fst (snd (Analyze_twice now w)))
   \<and> UnlinkedTorrents (fst (Analyze_twice now w))
     = UnlinkedTorrents (fst (snd (Analyze_twice now w)))
   \<and> PermissionIssues (fst (Analyze_twice now w))
     = PermissionIssues (fst (snd (Analyze_twice now w)))
   \<and> Summary (fst (Analyze_twice now w)) = Summary (fst (snd (Analyze_twice now w)))
   \<and> fst (Analyze_twice now w) = fst (Analyze_in now w)
   \<and> snd (snd (Analyze_twice now w)) = w"
  by (simp add: Analyze_twice_def case_prod_beta Let_def Analyze_in_frame)

text \<open>
  In a world whose package-level variables hold their declared values, a run on the
  world returns what \<open>Analyze\<close> returns for the engine and the slices of that world.
\<close>

lemma foldl_indices:
  "foldl (\<lambda>a i. g a (xs ! i)) a [0..<length xs] = foldl g a xs"
proof -
  have "foldl g a (map ((!) xs) [0..<length xs]) = foldl (\<lambda>a i. g a (xs ! i)) a [0..<length xs]"
    by (simp add: foldl_map)
  then show ?thesis by (simp add: map_nth)
qed

lemma insert_arr_files_foldl:
  "insert_arr_files lookup fs
     = foldl (\<lambda>lookup f. lookup(normalizePath (ArrFile.Path f) \<mapsto> f)) lookup fs"
  by (induction fs arbitrary: lookup) simp_all

lemma insert_sonarr_ref_loop:
  "foldl insert_sonarr_ref (lookup, w) is
     = (foldl (\<lambda>lookup i. lookup(normalizePath (ArrFile.Path (sonarrFiles_array w ! i))
                                      \<mapsto> SonarrRef i)) lookup is, w)"
  by (induction "is" arbitrary: lookup) simp_all

lemma insert_radarr_ref_loop:
  "foldl insert_radarr_ref (lookup, w) is
     = (foldl (\<lambda>lookup i. lookup(normalizePath (ArrFile.Path (radarrFiles_array w ! i))
                                      \<mapsto> RadarrRef i)) lookup is, w)"
  by (induction "is" arbitrary: lookup) simp_all

lemma deref_sonarr_loop:
  "map_option (deref w) \<circ>
     foldl (\<lambda>lookup i. lookup(normalizePath (ArrFile.Path (sonarrFiles_array w ! i))
                                \<mapsto> SonarrRef i)) lookup is
   = foldl (\<lambda>lookup i. lookup(normalizePath (ArrFile.Path (sonarrFiles_array w ! i))
                                \<mapsto> sonarrFiles_array w ! i))
       (map_option (deref w) \<circ> lookup) is"
proof (induction "is" arbitrary: lookup)
  case Nil
  show ?case by simp
next
  case (Cons i "is")
  have "map_option (deref w) \<circ>
          lookup(normalizePath (ArrFile.Path (sonarrFiles_array w ! i)) \<mapsto> SonarrRef i)
        = (map_option (deref w) \<circ> lookup)
            (normalizePath (ArrFile.Path (sonarrFiles_array w ! i)) \<mapsto> sonarrFiles_array w ! i)"
    by (rule ext) (simp add: deref_def)
  then show ?case unfolding foldl_Cons Cons.IH by simp
qed

lemma deref_radarr_loop:
  "map_option (deref w) \<circ>
     foldl (\<lambda>lookup i. lookup(normalizePath (ArrFile.Path (radarrFiles_array w ! i))
                                \<mapsto> RadarrRef i)) lookup is
   = foldl (\<lambda>lookup i. lookup(normalizePath (ArrFile.Path (radarrFiles_array w ! i))
                                \<mapsto> radarrFiles_array w ! i))
       (map_option (deref w) \<circ> lookup) is"
proof (induction "is" arbitrary: lookup)
  case Nil
  show ?case by simp
next
  case (Cons i "is")
  have "map_option (deref w) \<circ>
          lookup(normalizePath (ArrFile.Path (radarrFiles_array w ! i)) \<mapsto> RadarrRef i)
        = (map_option (deref w) \<circ> lookup)
            (normalizePath (ArrFile.Path (radarrFiles_array w ! i)) \<mapsto> radarrFiles_array w ! i)"
    by (rule ext) (simp add: deref_def)
  then show ?case unfolding foldl_Cons Cons.IH by simp
qed

lemma buildArrLookup_in_deref:
  "map_option (deref w) \<circ> fst (buildArrLookup_in w)
     = buildArrLookup (sonarrFiles_array w) (radarrFiles_array w)"
proof -
  have e: "map_option (deref w) \<circ> Map.empty = Map.empty" by (rule ext) simp
  show ?thesis
    by (simp add: buildArrLookup_in_def buildArrLookup_def insert_sonarr_ref_loop
          insert_radarr_ref_loop deref_radarr_loop deref_sonarr_loop e
          insert_arr_files_foldl
          foldl_indices [of "\<lambda>lookup f. lookup(normalizePath (ArrFile.Path f) \<mapsto> f)"])
qed

lemma getGraceHours_in_value:
  "getGraceHours_in w a = (getGraceHours (the_engine w) (map_option (deref w) a), w)"
  by (simp add: getGraceHours_in_def getGraceHours_def split: option.splits)

lemma IsSuspicious_in_value:
  "initial_vars w \<Longrightarrow> IsSuspicious_in w p x a = (IsSuspicious p x a, w)"
  by (simp add: IsSuspicious_in_def IsSuspicious_def initial_vars_def Let_def
      split: option.splits)

lemma auditPermissions_in_value:
  "initial_vars w \<Longrightarrow> auditPermissions_in w f = (auditPermissions (the_engine w) f, w)"
  by (simp add: auditPermissions_in_def auditPermissions_def IsMetadataFile_in_def
        IsMetadataFile_def isValidOwner_in_def isValidOwner_def shouldHaveSGID_in_def
        shouldHaveSGID_def initial_vars_def Let_def)

lemma matching_ref_loop_deref:
  "matching_ref_loop savePath lk fs
     = matching_file_loop savePath (map_option (deref w) \<circ> lk) fs"
  by (induction fs) (simp_all add: Let_def)

lemma analyze_media_in_value:
  "initial_vars w \<Longrightarrow>
   analyze_media_in now lk (r, w) i
     = (analyze_media (the_engine w) now (map_option (deref w) \<circ> lk) r
          (mediaFiles_array w ! i), w)"
  by (cases "lk (normalizePath (MediaFile.Path (mediaFiles_array w ! i)))")
     (simp_all add: analyze_media_def Let_def case_prod_beta getGraceHours_in_value
        IsSuspicious_in_value)

lemma analyze_torrent_in_value:
  "analyze_torrent_in now lk (r, w) i
     = (analyze_torrent (the_engine w) now (map_option (deref w) \<circ> lk) r
          (torrents_array w ! i), w)"
  by (simp add: analyze_torrent_def Let_def hasMatchingMediaFile_in_def
        hasMatchingMediaFile_def matching_ref_loop_deref [of _ _ _ w])

lemma analyze_permission_in_value:
  "initial_vars w \<Longrightarrow>
   analyze_permission_in (r, w) i
     = (analyze_permission (the_engine w) r (permissions_array w ! i), w)"
  by (simp add: analyze_permission_def Let_def auditPermissions_in_value)

lemma loop_value:
  assumes "\<And>r i. body (r, w) i = (step r (xs ! i), w)"
  shows "foldl body (r, w) [0..<length xs] = (foldl step r xs, w)"
proof -
  have "foldl body (r, w) is = (foldl (\<lambda>r i. step r (xs ! i)) r is, w)" for "is"
    using assms by (induction "is" arbitrary: r) simp_all
  then show ?thesis by (simp add: foldl_indices)
qed

lemma Analyze_in_value:
  assumes "initial_vars w"
  shows "fst (Analyze_in now w)
           = Analyze (the_engine w) now (mediaFiles_array w) (sonarrFiles_array w)
               (radarrFiles_array w) (torrents_array w) (permissions_array w)"
proof -
  obtain lk where lk: "buildArrLookup_in w = (lk, w)"
    using buildArrLookup_in_frame [of w] by (cases "buildArrLookup_in w") simp
  have d: "map_option (deref w) \<circ> lk
             = buildArrLookup (sonarrFiles_array w) (radarrFiles_array w)"
    using buildArrLookup_in_deref [of w] lk by simp
  show ?thesis
    by (simp add: Analyze_in_def Analyze_def Let_def lk d [symmetric]
          loop_value [of "analyze_media_in now lk" w
            "analyze_media (the_engine w) now (map_option (deref w) \<circ> lk)",
            OF analyze_media_in_value [OF assms]]
          loop_value [of "analyze_torrent_in now lk" w
            "analyze_torrent (the_engine w) now (map_option (deref w) \<circ> lk)",
            OF analyze_torrent_in_value]
          loop_value [of analyze_permission_in w "analyze_permission (the_engine w)",
            OF analyze_permission_in_value [OF assms]])
qed

end
